theory Spec2Isabelle
  imports Main "HOL-Library.Code_Target_Numeral"
begin

section \<open>Python text and numbers\<close>

text \<open>
  The collation script works on CSV cells read with \<^verbatim>\<open>dtype=str\<close>: a cell is a text or
  the missing marker NaN. Text is modelled as \<^typ>\<open>string\<close>, one \<^typ>\<open>char\<close> per code
  point below 256; code points above that range are outside the model.
\<close>

definition isspace :: "char \<Rightarrow> bool" where
  \<comment> \<open>\<^verbatim>\<open>str.isspace\<close> on the code points below 256\<close>
  "isspace c = (of_char c \<in> set [9, 10, 11, 12, 13, 28, 29, 30, 31, 32, 133, 160 :: nat])"

definition isdigit :: "char \<Rightarrow> bool" where
  "isdigit c = (48 \<le> (of_char c :: nat) \<and> (of_char c :: nat) \<le> 57)"

definition strip :: "string \<Rightarrow> string" where
  \<comment> \<open>\<^verbatim>\<open>s.strip()\<close>\<close>
  "strip s = rev (dropWhile isspace (rev (dropWhile isspace s)))"

definition strip_chars :: "string \<Rightarrow> string \<Rightarrow> string" where
  \<comment> \<open>\<^verbatim>\<open>s.strip(cs)\<close>\<close>
  "strip_chars cs s =
     rev (dropWhile (\<lambda>c. c \<in> set cs) (rev (dropWhile (\<lambda>c. c \<in> set cs) s)))"

definition lower_char :: "char \<Rightarrow> char" where
  "lower_char c =
     (let n = (of_char c :: nat)
      in if (65 \<le> n \<and> n \<le> 90) \<or> (192 \<le> n \<and> n \<le> 222 \<and> n \<noteq> 215)
         then char_of (n + 32) else c)"

definition lower :: "string \<Rightarrow> string" where
  \<comment> \<open>\<^verbatim>\<open>s.lower()\<close>; the SQL function \<^verbatim>\<open>LOWER\<close> is taken to agree with it\<close>
  "lower s = map lower_char s"

fun split_on :: "char \<Rightarrow> string \<Rightarrow> string list" where
  \<comment> \<open>\<^verbatim>\<open>s.split(sep)\<close> for a one-character separator\<close>
  "split_on sep [] = [[]]"
| "split_on sep (c # cs) =
     (if c = sep then [] # split_on sep cs
      else (case split_on sep cs of
              [] \<Rightarrow> [[c]]
            | w # ws \<Rightarrow> (c # w) # ws))"

fun digits_val :: "nat \<Rightarrow> string \<Rightarrow> nat" where
  \<comment> \<open>the value of a run of decimal digits, most significant first\<close>
  "digits_val acc [] = acc"
| "digits_val acc (c # cs) = digits_val (acc * 10 + (of_char c - 48)) cs"

fun dec_digits :: "nat \<Rightarrow> nat \<Rightarrow> string" where
  \<comment> \<open>the decimal digits of a natural number; the first argument bounds the recursion\<close>
  "dec_digits 0 n = []"
| "dec_digits (Suc k) n =
     (if n < 10 then [char_of (48 + n)]
      else dec_digits k (n div 10) @ [char_of (48 + n mod 10)])"

definition str_int :: "int \<Rightarrow> string" where
  \<comment> \<open>\<^verbatim>\<open>str(n)\<close> for an integer\<close>
  "str_int n =
     (if n < 0 then CHR ''-'' # dec_digits (Suc (nat (- n))) (nat (- n))
      else dec_digits (Suc (nat n)) (nat n))"

subsection \<open>Values a cell can hold\<close>

datatype pyval =
    PNaN              \<comment> \<open>the missing marker of pandas (a float NaN)\<close>
  | PInt int          \<comment> \<open>an integer, such as the default of \<^verbatim>\<open>row.get('Store Inventory', 0)\<close>\<close>
  | PStr string       \<comment> \<open>a text cell\<close>

fun isna :: "pyval \<Rightarrow> bool" where
  "isna PNaN = True"
| "isna _ = False"

fun py_str :: "pyval \<Rightarrow> string" where
  \<comment> \<open>\<^verbatim>\<open>str(value)\<close>\<close>
  "py_str PNaN = ''nan''"
| "py_str (PInt n) = str_int n"
| "py_str (PStr s) = s"

datatype py_exception = ValueError | TypeError | OverflowError

subsection \<open>\<^verbatim>\<open>float(text)\<close> and \<^verbatim>\<open>int(float)\<close>\<close>

text \<open>
  A binary64 value is NaN, an infinity, or \<open>\<plusminus> m * 2 ^ e\<close>. \<open>float\<close> reads an optional
  sign, then \<^verbatim>\<open>inf\<close>, \<^verbatim>\<open>infinity\<close> or \<^verbatim>\<open>nan\<close> in any case, or a decimal numeral with an
  optional fraction and exponent; single underscores may separate digits. The decimal
  value is rounded to the nearest binary64 value, ties to even, and a value too large
  becomes an infinity.
\<close>

datatype pyfloat =
    FNan
  | FInf bool             \<comment> \<open>\<open>True\<close> for the negative infinity\<close>
  | FFin bool nat int     \<comment> \<open>sign (\<open>True\<close> is negative), significand, binary exponent\<close>

fun bitlength :: "nat \<Rightarrow> nat" where
  "bitlength n = (if n = 0 then 0 else Suc (bitlength (n div 2)))"

declare bitlength.simps [simp del]

definition rdiv_even :: "nat \<Rightarrow> nat \<Rightarrow> nat" where
  \<comment> \<open>the quotient rounded to the nearest integer, ties to even\<close>
  "rdiv_even n d =
     (let q = n div d; r = n mod d
      in if 2 * r < d then q
         else if d < 2 * r then q + 1
         else if even q then q else q + 1)"

definition scaled :: "nat \<Rightarrow> nat \<Rightarrow> int \<Rightarrow> nat \<times> nat" where
  \<comment> \<open>numerator and denominator of \<open>num / (den * 2 ^ e)\<close>\<close>
  "scaled num den e =
     (if e < 0 then (num * 2 ^ nat (- e), den) else (num, den * 2 ^ nat e))"

definition binary64 :: "nat \<Rightarrow> nat \<Rightarrow> (nat \<times> int) option" where
  \<comment> \<open>\<open>num / den\<close> with \<open>0 < num\<close> and \<open>0 < den\<close>, rounded; \<open>None\<close> on overflow\<close>
  "binary64 num den =
     (let e1 = int (bitlength num) - int (bitlength den) - 53;
          e2 = (case scaled num den e1 of (a, b) \<Rightarrow> if 2 ^ 53 * b \<le> a then e1 + 1 else e1);
          e = max e2 (- 1074);
          m = (case scaled num den e of (a, b) \<Rightarrow> rdiv_even a b)
      in if 971 < e \<or> (e = 971 \<and> 2 ^ 53 \<le> m) then None else Some (m, e))"

definition float_of_decimal :: "bool \<Rightarrow> nat \<Rightarrow> int \<Rightarrow> pyfloat" where
  \<comment> \<open>\<open>\<plusminus> n * 10 ^ e10\<close> as a binary64 value\<close>
  "float_of_decimal neg n e10 =
     (if n = 0 then FFin neg 0 0
      else (case (if e10 < 0 then binary64 n (10 ^ nat (- e10))
                  else binary64 (n * 10 ^ nat e10) 1) of
              None \<Rightarrow> FInf neg
            | Some (m, e) \<Rightarrow> FFin neg m e))"

fun drop_underscores :: "char \<Rightarrow> string \<Rightarrow> string option" where
  \<comment> \<open>an underscore must stand between two digits; the first argument is the previous
      character\<close>
  "drop_underscores prev [] = (if prev = CHR ''_'' then None else Some [])"
| "drop_underscores prev (c # cs) =
     (if c = CHR ''_'' then
        (if isdigit prev then drop_underscores c cs else None)
      else if prev = CHR ''_'' \<and> \<not> isdigit c then None
      else map_option ((#) c) (drop_underscores c cs))"

definition split_sign :: "string \<Rightarrow> bool \<times> string" where
  "split_sign s =
     (case s of
        [] \<Rightarrow> (False, [])
      | c # cs \<Rightarrow> if c = CHR ''-'' then (True, cs)
                  else if c = CHR ''+'' then (False, cs) else (False, s))"

definition parse_exponent :: "string \<Rightarrow> int option" where
  \<comment> \<open>what follows the significand: nothing, or \<^verbatim>\<open>e\<close>, an optional sign and digits\<close>
  "parse_exponent s =
     (case s of
        [] \<Rightarrow> Some 0
      | c # cs \<Rightarrow>
          if c = CHR ''e'' \<or> c = CHR ''E'' then
            (case split_sign cs of
               (neg, ds) \<Rightarrow>
                 if ds \<noteq> [] \<and> list_all isdigit ds
                 then Some (if neg then - int (digits_val 0 ds) else int (digits_val 0 ds))
                 else None)
          else None)"

definition parse_decimal :: "bool \<Rightarrow> string \<Rightarrow> pyfloat option" where
  "parse_decimal neg s =
     (let ip = takeWhile isdigit s;
          r1 = dropWhile isdigit s;
          fp = (case r1 of c # cs \<Rightarrow> if c = CHR ''.'' then takeWhile isdigit cs else [] | [] \<Rightarrow> []);
          r2 = (case r1 of c # cs \<Rightarrow> if c = CHR ''.'' then dropWhile isdigit cs else r1 | [] \<Rightarrow> [])
      in if ip = [] \<and> fp = [] then None
         else (case parse_exponent r2 of
                 None \<Rightarrow> None
               | Some ex \<Rightarrow> Some (float_of_decimal neg (digits_val 0 (ip @ fp)) (ex - int (length fp)))))"

definition py_float :: "string \<Rightarrow> py_exception + pyfloat" where
  \<comment> \<open>\<^verbatim>\<open>float(s)\<close> for a text\<close>
  "py_float s =
     (case drop_underscores (CHR '' '') (strip s) of
        None \<Rightarrow> Inl ValueError
      | Some t \<Rightarrow>
          (case split_sign t of
             (neg, body) \<Rightarrow>
               if lower body = ''inf'' \<or> lower body = ''infinity'' then Inr (FInf neg)
               else if lower body = ''nan'' then Inr FNan
               else (case parse_decimal neg body of
                       None \<Rightarrow> Inl ValueError
                     | Some f \<Rightarrow> Inr f)))"

fun py_int :: "pyfloat \<Rightarrow> py_exception + int" where
  \<comment> \<open>\<^verbatim>\<open>int(f)\<close>: truncation towards zero\<close>
  "py_int FNan = Inl ValueError"
| "py_int (FInf neg) = Inl OverflowError"
| "py_int (FFin neg m e) =
     (let a = (if e < 0 then m div 2 ^ nat (- e) else m * 2 ^ nat e)
      in Inr (if neg then - int a else int a))"

section \<open>Field normalisation\<close>

text \<open>
  \<^verbatim>\<open>_validate_inventory_quantity(value, errors)\<close>. The list \<open>errors\<close> is passed in and
  returned extended. The handler catches \<^verbatim>\<open>ValueError\<close> and \<^verbatim>\<open>TypeError\<close> only; any other
  exception leaves the function.
\<close>

definition validate_inventory_quantity ::
  "pyval \<Rightarrow> string list \<Rightarrow> py_exception + (int \<times> string list)" where
  "validate_inventory_quantity v errors =
     (if isna v \<or> v = PStr [] \<or> strip (py_str v) = [] then Inr (0, errors)
      else (case (case py_float (py_str v) of Inl ex \<Rightarrow> Inl ex | Inr f \<Rightarrow> py_int f) of
              Inr inventory_qty \<Rightarrow>
                if inventory_qty < 0
                then Inr (0, errors @ [''Inventory quantity cannot be negative''])
                else Inr (inventory_qty, errors)
            | Inl ex \<Rightarrow>
                if ex = ValueError \<or> ex = TypeError
                then Inr (0, errors @ [''Invalid inventory quantity format: '' @ py_str v])
                else Inl ex))"

subsection \<open>Text with any code point\<close>

text \<open>
  A cell is text below code point 256, but an escape of a JSON string can name any code
  point. What the decoder reads, and so what location normalisation returns, is therefore
  kept as a list of code points.
\<close>

type_synonym unicode = "nat list"

definition text_of :: "string \<Rightarrow> unicode" where
  "text_of s = map of_char s"

definition isspace_cp :: "nat \<Rightarrow> bool" where
  \<comment> \<open>\<^verbatim>\<open>str.isspace\<close> on a code point\<close>
  "isspace_cp n =
     (n \<in> set [9, 10, 11, 12, 13, 28, 29, 30, 31, 32, 133, 160, 5760,
                8192, 8193, 8194, 8195, 8196, 8197, 8198, 8199, 8200, 8201, 8202,
                8232, 8233, 8239, 8287, 12288])"

definition strip_text :: "unicode \<Rightarrow> unicode" where
  \<comment> \<open>\<^verbatim>\<open>s.strip()\<close> on decoded text\<close>
  "strip_text t = rev (dropWhile isspace_cp (rev (dropWhile isspace_cp t)))"

subsection \<open>\<^verbatim>\<open>json.loads\<close>\<close>

text \<open>
  The decoder of the standard library, as \<^verbatim>\<open>json/decoder.py\<close> and \<^verbatim>\<open>json/scanner.py\<close> write
  it: a value is a string, an object, an array, a literal or a number; blanks, tabs and
  line ends may surround it. A text it cannot read raises \<^verbatim>\<open>JSONDecodeError\<close>. Two limits
  of the interpreter raise exceptions of other classes: containers nested deeper than the
  interpreter has room for raise \<^verbatim>\<open>RecursionError\<close>, and an integer with more digits than
  \<^verbatim>\<open>sys.get_int_max_str_digits()\<close> raises \<^verbatim>\<open>ValueError\<close>. Both limits are parameters of the
  model, together with the text Python prints for a float, a list or a dict, which is
  not modelled.
\<close>

datatype json =
    JNull
  | JBool bool
  | JInt int
  | JFloat pyfloat
  | JStr unicode
  | JArr "json list"
  | JObj "(unicode \<times> json) list"

record interpreter =
  repr_of :: "json \<Rightarrow> unicode"
    \<comment> \<open>\<^verbatim>\<open>str\<close> of a decoded float, list or dict\<close>
  nesting_room :: nat
    \<comment> \<open>how many containers may be open inside the outermost one\<close>
  max_str_digits :: nat
    \<comment> \<open>the digit limit of \<^verbatim>\<open>int(text)\<close>; 0 switches it off\<close>

datatype json_failure =
    JSONDecodeError
  | OtherException string   \<comment> \<open>an exception of another class, with its text\<close>

definition json_ws :: "char \<Rightarrow> bool" where
  "json_ws c = (c = CHR '' '' \<or> c = CHR 0x09 \<or> c = CHR 0x0A \<or> c = CHR 0x0D)"

definition skip_ws :: "string \<Rightarrow> string" where
  "skip_ws s = dropWhile json_ws s"

definition hex_val :: "char \<Rightarrow> nat option" where
  "hex_val c =
     (let n = (of_char c :: nat)
      in if 48 \<le> n \<and> n \<le> 57 then Some (n - 48)
         else if 65 \<le> n \<and> n \<le> 70 then Some (n - 55)
         else if 97 \<le> n \<and> n \<le> 102 then Some (n - 87)
         else None)"

definition decode_uXXXX :: "char \<Rightarrow> char \<Rightarrow> char \<Rightarrow> char \<Rightarrow> nat option" where
  \<comment> \<open>the code point four hexadecimal digits name\<close>
  "decode_uXXXX a b c d =
     (case (hex_val a, hex_val b, hex_val c, hex_val d) of
        (Some x, Some y, Some z, Some w) \<Rightarrow> Some (((x * 16 + y) * 16 + z) * 16 + w)
      | _ \<Rightarrow> None)"

definition backslash :: "char \<Rightarrow> nat option" where
  \<comment> \<open>the one-character escapes\<close>
  "backslash e =
     (if e = CHR 0x22 then Some 34
      else if e = CHR 0x5C then Some 92
      else if e = CHR ''/'' then Some 47
      else if e = CHR ''b'' then Some 8
      else if e = CHR ''f'' then Some 12
      else if e = CHR ''n'' then Some 10
      else if e = CHR ''r'' then Some 13
      else if e = CHR ''t'' then Some 9
      else None)"

definition join_surrogates :: "nat \<Rightarrow> nat \<Rightarrow> nat" where
  "join_surrogates hi lo = 65536 + (hi - 55296) * 1024 + (lo - 56320)"

fun scanstring :: "string \<Rightarrow> (unicode \<times> string) option" where
  \<comment> \<open>the text after an opening quote: the decoded string and what follows its closing
      quote; \<open>None\<close> is \<^verbatim>\<open>JSONDecodeError\<close>. A high surrogate escape followed by a low
      one is one code point.\<close>
  "scanstring [] = None"
| "scanstring (c # cs) =
     (if c = CHR 0x22 then Some ([], cs)
      else if c = CHR 0x5C then
        (case cs of
           [] \<Rightarrow> None
         | e # es \<Rightarrow>
             if e = CHR ''u'' then
               (case es of
                  a # b # x # y # rest \<Rightarrow>
                    (case decode_uXXXX a b x y of
                       None \<Rightarrow> None
                     | Some uni \<Rightarrow>
                         if 55296 \<le> uni \<and> uni \<le> 56319 \<and> take 2 rest = [CHR 0x5C, CHR ''u''] then
                           (case rest of
                              b1 # b2 # a' # b' # x' # y' # rest' \<Rightarrow>
                                (case decode_uXXXX a' b' x' y' of
                                   None \<Rightarrow> None
                                 | Some uni2 \<Rightarrow>
                                     if 56320 \<le> uni2 \<and> uni2 \<le> 57343
                                     then map_option (\<lambda>(t, r). (join_surrogates uni uni2 # t, r))
                                            (scanstring rest')
                                     else map_option (\<lambda>(t, r). (uni # t, r)) (scanstring rest))
                            | _ \<Rightarrow> None)
                         else map_option (\<lambda>(t, r). (uni # t, r)) (scanstring rest))
                | _ \<Rightarrow> None)
             else
               (case backslash e of
                  None \<Rightarrow> None
                | Some d \<Rightarrow> map_option (\<lambda>(t, r). (d # t, r)) (scanstring es)))
      else if (of_char c :: nat) < 32 then None
      else map_option (\<lambda>(t, r). (of_char c # t, r)) (scanstring cs))"

definition match_number :: "string \<Rightarrow> (string \<times> string \<times> string \<times> string) option" where
  \<comment> \<open>the pattern \<^verbatim>\<open>(-?(?:0|[1-9][0-9]*))(\.[0-9]+)?([eE][-+]?[0-9]+)?\<close>: the three groups
      and the rest of the text\<close>
  "match_number s =
     (let (sg, s1) = (case s of c # cs \<Rightarrow> if c = CHR ''-'' then ([c], cs) else ([], s) | [] \<Rightarrow> ([], s));
          ds = (case s1 of c # cs \<Rightarrow> if c = CHR ''0'' then [c] else takeWhile isdigit s1 | [] \<Rightarrow> []);
          s2 = drop (length ds) s1;
          fr = (case s2 of
                  c # cs \<Rightarrow> if c = CHR ''.'' \<and> takeWhile isdigit cs \<noteq> []
                            then c # takeWhile isdigit cs else []
                | [] \<Rightarrow> []);
          s3 = drop (length fr) s2;
          ex = (case s3 of
                  c # cs \<Rightarrow>
                    if c = CHR ''e'' \<or> c = CHR ''E'' then
                      (let sn = (case cs of d # _ \<Rightarrow> if d = CHR ''-'' \<or> d = CHR ''+'' then [d] else [] | [] \<Rightarrow> []);
                           es = takeWhile isdigit (drop (length sn) cs)
                       in if es \<noteq> [] then c # sn @ es else [])
                    else []
                | [] \<Rightarrow> []);
          s4 = drop (length ex) s3
      in if ds = [] then None else Some (sg @ ds, fr, ex, s4))"

definition starts_with :: "string \<Rightarrow> string \<Rightarrow> bool" where
  "starts_with p s = (take (length p) s = p)"

definition int_digits_error :: "nat \<Rightarrow> nat \<Rightarrow> string" where
  \<comment> \<open>the text of the \<^verbatim>\<open>ValueError\<close> that \<^verbatim>\<open>int\<close> raises on too many digits\<close>
  "int_digits_error limit n =
     ''Exceeds the limit ('' @ str_int (int limit)
       @ '' digits) for integer string conversion: value has '' @ str_int (int n)
       @ '' digits; use sys.set_int_max_str_digits() to increase the limit''"

definition scan_atom :: "interpreter \<Rightarrow> string \<Rightarrow> json_failure + (json \<times> string)" where
  \<comment> \<open>the branches of \<^verbatim>\<open>_scan_once\<close> that read a literal or a number\<close>
  "scan_atom py s =
     (if starts_with ''null'' s then Inr (JNull, drop 4 s)
      else if starts_with ''true'' s then Inr (JBool True, drop 4 s)
      else if starts_with ''false'' s then Inr (JBool False, drop 5 s)
      else (case match_number s of
              Some (i, fr, ex, rest) \<Rightarrow>
                if fr \<noteq> [] \<or> ex \<noteq> [] then
                  (case py_float (i @ fr @ ex) of
                     Inr f \<Rightarrow> Inr (JFloat f, rest)
                   | Inl _ \<Rightarrow> Inl JSONDecodeError)
                else
                  (case split_sign i of
                     (neg, ds) \<Rightarrow>
                       if max_str_digits py \<noteq> 0 \<and> max_str_digits py < length ds
                       then Inl (OtherException (int_digits_error (max_str_digits py) (length ds)))
                       else Inr (JInt (if neg then - int (digits_val 0 ds) else int (digits_val 0 ds)),
                                 rest))
            | None \<Rightarrow>
                if starts_with ''NaN'' s then Inr (JFloat FNan, drop 3 s)
                else if starts_with ''Infinity'' s then Inr (JFloat (FInf False), drop 8 s)
                else if starts_with ''-Infinity'' s then Inr (JFloat (FInf True), drop 9 s)
                else Inl JSONDecodeError))"

definition recursion_error :: "string \<Rightarrow> json_failure" where
  "recursion_error kind =
     OtherException (''maximum recursion depth exceeded while decoding a JSON '' @ kind
                       @ '' from a unicode string'')"

text \<open>
  Arrays and objects nest, so the scanner is recursive; its first argument is the number
  of containers that may still be opened. Every call works on a text shorter than its
  caller's; the tests \<open>length r < length s\<close> below state this where the recursion
  continues after a nested value and never fail.
\<close>

lemma length_skip_ws_Cons: "skip_ws s = d # ds \<Longrightarrow> length ds < length s"
proof -
  assume a: "skip_ws s = d # ds"
  have "length (skip_ws s) \<le> length s"
    unfolding skip_ws_def by (rule length_dropWhile_le)
  with a show ?thesis by simp
qed

function (sequential)
  scan_once :: "interpreter \<Rightarrow> nat \<Rightarrow> string \<Rightarrow> json_failure + (json \<times> string)"
  and array_items :: "interpreter \<Rightarrow> nat \<Rightarrow> string \<Rightarrow> json list \<Rightarrow> json_failure + (json \<times> string)"
  and object_items ::
    "interpreter \<Rightarrow> nat \<Rightarrow> string \<Rightarrow> (unicode \<times> json) list \<Rightarrow> json_failure + (json \<times> string)"
where
  "scan_once py room [] = Inl JSONDecodeError"
| "scan_once py room (c # cs) =
     (if c = CHR 0x22 then
        (case scanstring cs of None \<Rightarrow> Inl JSONDecodeError | Some (t, r) \<Rightarrow> Inr (JStr t, r))
      else if c = CHR ''{'' then
        (case room of
           0 \<Rightarrow> Inl (recursion_error ''object'')
         | Suc room' \<Rightarrow>
             (case skip_ws cs of
                [] \<Rightarrow> Inl JSONDecodeError
              | d # ds \<Rightarrow>
                  if d = CHR ''}'' then Inr (JObj [], ds)
                  else if d = CHR 0x22 then object_items py room' ds []
                  else Inl JSONDecodeError))
      else if c = CHR ''['' then
        (case room of
           0 \<Rightarrow> Inl (recursion_error ''array'')
         | Suc room' \<Rightarrow>
             (case skip_ws cs of
                [] \<Rightarrow> Inl JSONDecodeError
              | d # ds \<Rightarrow>
                  if d = CHR '']'' then Inr (JArr [], ds) else array_items py room' (d # ds) []))
      else scan_atom py (c # cs))"
| "array_items py room s acc =
     (case scan_once py room s of
        Inl e \<Rightarrow> Inl e
      | Inr (v, r) \<Rightarrow>
          (case skip_ws r of
             [] \<Rightarrow> Inl JSONDecodeError
           | d # ds \<Rightarrow>
               if d = CHR '']'' then Inr (JArr (acc @ [v]), ds)
               else if d = CHR '','' \<and> length (skip_ws ds) < length s
               then array_items py room (skip_ws ds) (acc @ [v])
               else Inl JSONDecodeError))"
| "object_items py room s acc =
     (case scanstring s of
        None \<Rightarrow> Inl JSONDecodeError
      | Some (k, r) \<Rightarrow>
          (case skip_ws r of
             [] \<Rightarrow> Inl JSONDecodeError
           | d # ds \<Rightarrow>
               if d = CHR '':'' \<and> length (skip_ws ds) < length s then
                 (case scan_once py room (skip_ws ds) of
                    Inl e \<Rightarrow> Inl e
                  | Inr (v, r') \<Rightarrow>
                      (case skip_ws r' of
                         [] \<Rightarrow> Inl JSONDecodeError
                       | d' # ds' \<Rightarrow>
                           if d' = CHR ''}'' then Inr (JObj (acc @ [(k, v)]), ds')
                           else if d' = CHR '','' then
                             (case skip_ws ds' of
                                [] \<Rightarrow> Inl JSONDecodeError
                              | q # qs \<Rightarrow>
                                  if q = CHR 0x22 \<and> length qs < length s
                                  then object_items py room qs (acc @ [(k, v)])
                                  else Inl JSONDecodeError)
                           else Inl JSONDecodeError))
               else Inl JSONDecodeError))"
  by pat_completeness auto
termination
  by (relation "measure (\<lambda>x. case x of
                   Inl (py, room, s) \<Rightarrow> 2 * length s
                 | Inr (Inl (py, room, s, acc)) \<Rightarrow> 2 * length s + 1
                 | Inr (Inr (py, room, s, acc)) \<Rightarrow> 2 * length s + 2)")
     (auto dest: length_skip_ws_Cons)

definition json_loads :: "interpreter \<Rightarrow> string \<Rightarrow> json_failure + json" where
  \<comment> \<open>the outermost container always has room; \<open>nesting_room\<close> more may be open in it\<close>
  "json_loads py s =
     (case scan_once py (Suc (nesting_room py)) (skip_ws s) of
        Inl e \<Rightarrow> Inl e
      | Inr (v, r) \<Rightarrow> if skip_ws r = [] then Inr v else Inl JSONDecodeError)"

fun truthy :: "json \<Rightarrow> bool" where
  \<comment> \<open>the truth value Python gives a decoded value\<close>
  "truthy JNull = False"
| "truthy (JBool b) = b"
| "truthy (JInt n) = (n \<noteq> 0)"
| "truthy (JFloat f) = (case f of FFin neg m e \<Rightarrow> m \<noteq> 0 | _ \<Rightarrow> True)"
| "truthy (JStr s) = (s \<noteq> [])"
| "truthy (JArr xs) = (xs \<noteq> [])"
| "truthy (JObj ps) = (ps \<noteq> [])"

definition str_json :: "interpreter \<Rightarrow> json \<Rightarrow> unicode" where
  \<comment> \<open>\<^verbatim>\<open>str(loc)\<close> for a decoded value\<close>
  "str_json py j =
     (case j of
        JStr s \<Rightarrow> s
      | JInt n \<Rightarrow> text_of (str_int n)
      | JBool b \<Rightarrow> text_of (if b then ''True'' else ''False'')
      | JNull \<Rightarrow> text_of ''None''
      | _ \<Rightarrow> repr_of py j)"

subsection \<open>Location\<close>

text \<open>
  \<^verbatim>\<open>_validate_location_array(value, errors)\<close>. The result \<open>None\<close> is Python's \<^verbatim>\<open>None\<close>. A
  cell is never a list, so the branch for a list is not part of the model. The inner
  handler catches \<^verbatim>\<open>JSONDecodeError\<close> only and lets the text fall through to the comma and
  single-token branches; any other exception of the decoder reaches the outer handler,
  which appends a note and returns \<^verbatim>\<open>None\<close>.
\<close>

definition ends_with :: "string \<Rightarrow> string \<Rightarrow> bool" where
  "ends_with p s = starts_with (rev p) (rev s)"

definition validate_location_array ::
  "interpreter \<Rightarrow> pyval \<Rightarrow> string list \<Rightarrow> unicode list option \<times> string list" where
  "validate_location_array py v errors =
     (if isna v \<or> v = PStr [] \<or> v = PStr ''nan'' then (None, errors)
      else
        (case v of
           PStr s \<Rightarrow>
             (let t = strip_chars ''{}'' (strip s);
                  decoded =
                    (if starts_with ''['' t \<and> ends_with '']'' t then
                       (case json_loads py t of
                          Inr (JArr loc_list) \<Rightarrow>
                            Inr (Some (map (\<lambda>loc. strip_text (str_json py loc))
                                   (filter (\<lambda>loc. truthy loc \<and> strip_text (str_json py loc) \<noteq> [])
                                      loc_list)))
                        | Inr _ \<Rightarrow> Inr None
                        | Inl JSONDecodeError \<Rightarrow> Inr None
                        | Inl (OtherException msg) \<Rightarrow> Inl msg)
                     else Inr None)
              in (case decoded of
                    Inl msg \<Rightarrow> (None, errors @ [''Invalid location format: '' @ msg])
                  | Inr (Some locs) \<Rightarrow> (Some locs, errors)
                  | Inr None \<Rightarrow>
                      if CHR '','' \<in> set t
                      then (Some (map (\<lambda>loc. text_of (strip loc))
                                    (filter (\<lambda>loc. strip loc \<noteq> []) (split_on (CHR '','') t))),
                            errors)
                      else (if strip t \<noteq> [] then Some [text_of (strip t)] else None, errors)))
         | _ \<Rightarrow> (if strip (py_str v) \<noteq> [] then Some [text_of (strip (py_str v))] else None,
                 errors)))"

section \<open>Reference sources\<close>

text \<open>
  A row of \<^verbatim>\<open>original_all_products\<close>: its key, its name, and the other descriptive
  columns as column and text. A row of \<^verbatim>\<open>distributor_master_list\<close>: the two code columns
  and the commercial columns; a \<^verbatim>\<open>NULL\<close> is \<open>None\<close>.
\<close>

record meta_row =
  mr_product_id :: string
  mr_name :: "string option"
  mr_columns :: "(string \<times> string) list"

text \<open>A \<^verbatim>\<open>NUMERIC\<close> value of the store: its digits as an integer, and its scale.\<close>

type_synonym numeric = "int \<times> nat"

record price_row =
  pr_item_code :: "string option"
  pr_original_item_code :: "string option"
  pr_mrp :: "numeric option"
  pr_purchase_rate :: "numeric option"
  pr_gst_rate :: "numeric option"
  pr_plazza_selling_price_incl_gst :: "numeric option"
  pr_effective_customer_discount :: "numeric option"
  pr_distributor :: "string option"
  pr_hsn_code :: "string option"

text \<open>The entry \<^verbatim>\<open>get_price_details_batch\<close> stores for a code.\<close>

record price_info =
  distributor_mrp :: "numeric option"
  purchase_rate :: "numeric option"
  gst_rate :: "numeric option"
  plazza_selling_price_incl_gst :: "numeric option"
  effective_customer_discount :: "numeric option"
  distributor :: "string option"
  hsn_code :: "string option"

text \<open>
  The two reference tables and what can go wrong with a query: \<open>metadata_query_fails\<close>
  and \<open>price_query_fails\<close> say for which arguments the query raises. Rows come back in
  table order.
\<close>

record reference_sources =
  original_all_products :: "meta_row list"
  distributor_master_list :: "price_row list"
  metadata_query_fails :: "string list \<Rightarrow> bool"
  price_query_fails :: "string list \<Rightarrow> bool"

definition get_metadata_batch :: "reference_sources \<Rightarrow> string list \<Rightarrow> (string \<rightharpoonup> meta_row)" where
  "get_metadata_batch R product_ids =
     (if product_ids = [] then Map.empty
      else if metadata_query_fails R product_ids then Map.empty
      else fold (\<lambda>row metadata. metadata(mr_product_id row \<mapsto> row))
             (filter (\<lambda>row. mr_product_id row \<in> set product_ids) (original_all_products R))
             Map.empty)"

definition float_or_none :: "numeric option \<Rightarrow> numeric option" where
  \<comment> \<open>\<^verbatim>\<open>float(x) if x else None\<close>: a zero counts as absent; the rounding to binary64 of a
      commercial figure is not modelled\<close>
  "float_or_none x = (case x of None \<Rightarrow> None | Some q \<Rightarrow> if fst q = 0 then None else Some q)"

definition price_entry :: "price_row \<Rightarrow> price_info" where
  "price_entry row =
     \<lparr> distributor_mrp = float_or_none (pr_mrp row),
       purchase_rate = float_or_none (pr_purchase_rate row),
       gst_rate = float_or_none (pr_gst_rate row),
       plazza_selling_price_incl_gst = float_or_none (pr_plazza_selling_price_incl_gst row),
       effective_customer_discount = float_or_none (pr_effective_customer_discount row),
       distributor = pr_distributor row,
       hsn_code = pr_hsn_code row \<rparr>"

definition code_mapping_of :: "string list \<Rightarrow> (string \<rightharpoonup> string) \<times> string list" where
  \<comment> \<open>the first loop of \<^verbatim>\<open>get_price_details_batch\<close>: \<open>code_mapping\<close> and
      \<open>lowercase_codes\<close>\<close>
  "code_mapping_of item_codes =
     fold (\<lambda>code (code_mapping, lowercase_codes).
             if code \<noteq> [] \<and> strip code \<noteq> []
             then (code_mapping(lower (strip code) \<mapsto> strip code),
                   lowercase_codes @ [lower (strip code)])
             else (code_mapping, lowercase_codes))
          item_codes (Map.empty, [])"

definition sql_lower_in :: "string option \<Rightarrow> string list \<Rightarrow> bool" where
  \<comment> \<open>\<^verbatim>\<open>LOWER(column) = ANY(codes)\<close>; a \<^verbatim>\<open>NULL\<close> matches nothing\<close>
  "sql_lower_in column codes = (case column of None \<Rightarrow> False | Some c \<Rightarrow> lower c \<in> set codes)"

definition map_code_field ::
  "(string \<rightharpoonup> string) \<Rightarrow> price_row \<Rightarrow> string option \<Rightarrow> (string \<rightharpoonup> price_info) \<Rightarrow> (string \<rightharpoonup> price_info)" where
  \<comment> \<open>the body of the inner loop for one of the two code columns\<close>
  "map_code_field code_mapping row field price_details =
     (case field of
        None \<Rightarrow> price_details
      | Some c \<Rightarrow>
          if c = [] then price_details
          else (case code_mapping (lower c) of
                  None \<Rightarrow> price_details
                | Some original_code \<Rightarrow>
                    if original_code = [] then price_details
                    else price_details(original_code \<mapsto> price_entry row)))"

definition get_price_details_batch :: "reference_sources \<Rightarrow> string list \<Rightarrow> (string \<rightharpoonup> price_info)" where
  "get_price_details_batch R item_codes =
     (if item_codes = [] then Map.empty
      else (case code_mapping_of item_codes of
              (code_mapping, lowercase_codes) \<Rightarrow>
                if lowercase_codes = [] then Map.empty
                else if price_query_fails R lowercase_codes then Map.empty
                else fold (\<lambda>row price_details.
                             map_code_field code_mapping row (pr_original_item_code row)
                               (map_code_field code_mapping row (pr_item_code row) price_details))
                       (filter (\<lambda>row. sql_lower_in (pr_item_code row) lowercase_codes
                                      \<or> sql_lower_in (pr_original_item_code row) lowercase_codes)
                          (distributor_master_list R))
                       Map.empty))"

section \<open>Row validation and merge\<close>

text \<open>
  An input row: the two key cells, and the two optional columns (\<open>None\<close> when the file
  has no such column, so that \<^verbatim>\<open>row.get\<close> gives its default).
\<close>

record csv_row =
  csv_product_id :: pyval
  csv_item_code :: pyval
  csv_store_inventory :: "pyval option"
  csv_location :: "pyval option"

text \<open>
  The merged record \<open>collated_data\<close>. The descriptive columns copied from the metadata
  row are kept together in \<open>descriptive\<close>; the two timestamps and the fields that are
  always \<^verbatim>\<open>None\<close> carry no information for what follows and are left out.
\<close>

record catalogue_row =
  product_id :: string
  dist_item_code :: string
  name :: "string option"
  descriptive :: "(string \<times> string) list"
  inventory_quantity :: int
  location :: "unicode list option"
  pricing :: price_info

text \<open>What \<^verbatim>\<open>ErrorLogger.add_error\<close> is given for a skipped row.\<close>

record rejection =
  rj_product_id :: string
  rj_item_code :: string
  rj_name :: "string option"
  rj_error_type :: string
  rj_error_details :: string

text \<open>
  The state of the \<^verbatim>\<open>DataCollator\<close> object that validation and the run change. The
  rejection queue is modelled by the list of records put on it.
\<close>

record collator =
  validation_errors :: "(nat \<times> pyval \<times> string list) list"
  error_logger :: "rejection list"
  skipped_no_metadata :: nat
  skipped_no_pricing :: nat

text \<open>
  The pair \<^verbatim>\<open>(is_valid, result)\<close> that \<^verbatim>\<open>validate_and_collate_row\<close> returns:
  \<open>Valid d\<close> is \<^verbatim>\<open>(True, d)\<close>, and \<open>Invalid errors d\<close> is
  \<^verbatim>\<open>(False, {'errors': errors, 'data': d})\<close> with \<open>None\<close> for the empty dict.
\<close>

datatype verdict = Valid catalogue_row | Invalid "string list" "catalogue_row option"


definition store_inventory_of :: "csv_row \<Rightarrow> pyval" where
  \<comment> \<open>\<^verbatim>\<open>row.get('Store Inventory', 0)\<close>\<close>
  "store_inventory_of row = (case csv_store_inventory row of None \<Rightarrow> PInt 0 | Some v \<Rightarrow> v)"

definition location_of :: "csv_row \<Rightarrow> pyval" where
  \<comment> \<open>\<^verbatim>\<open>row.get('Location', '')\<close>\<close>
  "location_of row = (case csv_location row of None \<Rightarrow> PStr [] | Some v \<Rightarrow> v)"

fun exception_text :: "py_exception \<Rightarrow> string" where
  \<comment> \<open>\<^verbatim>\<open>str(e)\<close> for what \<^verbatim>\<open>int\<close> raises; no \<^verbatim>\<open>TypeError\<close> reaches the handler that uses it\<close>
  "exception_text OverflowError = ''cannot convert float infinity to integer''"
| "exception_text ValueError = ''cannot convert float NaN to integer''"
| "exception_text TypeError = []"

definition validate_and_collate_row ::
  "interpreter \<Rightarrow> collator \<Rightarrow> csv_row \<Rightarrow> nat \<Rightarrow> (string \<rightharpoonup> meta_row) \<Rightarrow>
     (string \<rightharpoonup> price_info) \<Rightarrow> verdict \<times> collator" where
  "validate_and_collate_row py self row row_index metadata price_details =
     (let pid = strip (py_str (csv_product_id row));
          item = strip (py_str (csv_item_code row))
      in if pid = [] then (Invalid [''Product ID is required''] None, self)
         else if item = [] then (Invalid [''Item code is required''] None, self)
         else
           (case metadata pid of
              None \<Rightarrow>
                (Invalid [''Missing metadata''] None,
                 self\<lparr> error_logger := error_logger self @
                         [\<lparr> rj_product_id = pid, rj_item_code = item, rj_name = Some [],
                            rj_error_type = ''Missing Metadata'',
                            rj_error_details =
                              ''Product metadata not found in original_all_products for product_id: '' @ pid \<rparr>],
                       skipped_no_metadata := skipped_no_metadata self + 1 \<rparr>)
            | Some product_metadata \<Rightarrow>
                (case price_details item of
                   None \<Rightarrow>
                     (Invalid [''Missing pricing data''] None,
                      self\<lparr> error_logger := error_logger self @
                              [\<lparr> rj_product_id = pid, rj_item_code = item,
                                 rj_name = mr_name product_metadata,
                                 rj_error_type = ''Missing Price Details'',
                                 rj_error_details =
                                   ''Price details not found in distributor_master_list for item_code: '' @ item \<rparr>],
                            skipped_no_pricing := skipped_no_pricing self + 1 \<rparr>)
                 | Some pricing_data \<Rightarrow>
                     (case validate_inventory_quantity (store_inventory_of row) [] of
                        Inl e \<Rightarrow>
                          (Invalid [''Unexpected error collating row '' @ str_int (int row_index)
                                      @ '': '' @ exception_text e] None, self)
                      | Inr (qty, errors1) \<Rightarrow>
                          (case validate_location_array py (location_of row) errors1 of
                             (loc, errors) \<Rightarrow>
                               (let collated_data =
                                      \<lparr> product_id = pid, dist_item_code = item,
                                        name = mr_name product_metadata,
                                        descriptive = mr_columns product_metadata,
                                        inventory_quantity = qty, location = loc,
                                        pricing = pricing_data \<rparr>
                                in if errors \<noteq> [] then (Invalid errors (Some collated_data), self)
                                   else (Valid collated_data, self)))))))"

section \<open>The destination store\<close>

text \<open>
  The connection to the catalogue runs with \<^verbatim>\<open>autocommit = False\<close>: rows written by a
  statement are pending until \<^verbatim>\<open>commit\<close> makes them part of the table; \<^verbatim>\<open>rollback\<close> and
  closing the connection discard them. What the store refuses is its own business:
  \<open>statement_fails\<close> says whether the insert of a row raises, given the rows the
  transaction sees, \<open>commit_fails\<close> whether the commit raises, and
  \<open>existing_query_fails\<close> does the same for the existence query. A rollback can raise
  too, on a connection that is broken: \<open>rollback_raises\<close> gives the text of the
  exception then.
\<close>

record connection =
  committed :: "catalogue_row list"
  pending :: "catalogue_row list"

record destination =
  statement_fails :: "catalogue_row list \<Rightarrow> catalogue_row \<Rightarrow> bool"
  commit_fails :: "catalogue_row list \<Rightarrow> bool"
  existing_query_fails :: "pyval list \<Rightarrow> bool"
  rollback_raises :: "catalogue_row list \<Rightarrow> string option"

definition visible :: "connection \<Rightarrow> catalogue_row list" where
  "visible c = committed c @ pending c"

fun executemany :: "destination \<Rightarrow> connection \<Rightarrow> catalogue_row list \<Rightarrow> bool \<times> connection" where
  \<comment> \<open>\<open>False\<close> when a statement raised; the rows before it are pending\<close>
  "executemany D c [] = (True, c)"
| "executemany D c (r # rs) =
     (if statement_fails D (visible c) r then (False, c)
      else executemany D (c\<lparr>pending := pending c @ [r]\<rparr>) rs)"

definition commit :: "connection \<Rightarrow> connection" where
  "commit c = c\<lparr>committed := committed c @ pending c, pending := []\<rparr>"

definition rollback :: "destination \<Rightarrow> connection \<Rightarrow> string + connection" where
  \<comment> \<open>\<open>Inl\<close> is the exception a rollback raises\<close>
  "rollback D c =
     (case rollback_raises D (visible c) of
        Some msg \<Rightarrow> Inl msg
      | None \<Rightarrow> Inr (c\<lparr>pending := []\<rparr>))"

definition disconnect_db :: "connection \<Rightarrow> connection" where
  \<comment> \<open>closing drops what was not committed\<close>
  "disconnect_db c = c\<lparr>pending := []\<rparr>"

text \<open>
  \<^verbatim>\<open>insert_batch(valid_data)\<close>. The handler of the \<^verbatim>\<open>try\<close> calls \<^verbatim>\<open>rollback\<close> with no guard of
  its own, so an exception of the rollback leaves \<^verbatim>\<open>insert_batch\<close>: the outcome \<open>Inl\<close>.
  \<open>Inr\<close> carries the boolean the function returns.
\<close>

definition insert_failed :: "destination \<Rightarrow> connection \<Rightarrow> (string + bool) \<times> connection" where
  \<comment> \<open>the \<^verbatim>\<open>except\<close> branch\<close>
  "insert_failed D c =
     (case rollback D c of
        Inl msg \<Rightarrow> (Inl msg, c)
      | Inr c' \<Rightarrow> (Inr False, c'))"

definition insert_batch ::
  "destination \<Rightarrow> connection \<Rightarrow> catalogue_row list \<Rightarrow> (string + bool) \<times> connection" where
  \<comment> \<open>on an empty list \<^verbatim>\<open>valid_data[0]\<close> raises inside the \<^verbatim>\<open>try\<close>\<close>
  "insert_batch D c valid_data =
     (if valid_data = [] then insert_failed D c
      else (case executemany D c valid_data of
              (False, c') \<Rightarrow> insert_failed D c'
            | (True, c') \<Rightarrow>
                if commit_fails D (visible c') then insert_failed D c'
                else (Inr True, commit c')))"

definition check_existing_products :: "destination \<Rightarrow> connection \<Rightarrow> pyval list \<Rightarrow> string list" where
  \<comment> \<open>with no ids the query text ends in \<^verbatim>\<open>IN ()\<close>, which the store refuses; every failure
      gives the empty list\<close>
  "check_existing_products D c product_ids =
     (if product_ids = [] \<or> existing_query_fails D product_ids then []
      else map product_id (filter (\<lambda>r. PStr (product_id r) \<in> set product_ids) (visible c)))"

section \<open>The run\<close>

text \<open>
  A data frame is the list of its rows, each with its index label (the position in the
  file, which \<^verbatim>\<open>drop_duplicates\<close> and the filters keep).
\<close>

type_synonym dataframe = "(nat \<times> csv_row) list"

definition check_duplicate_products :: "dataframe \<Rightarrow> pyval list" where
  \<comment> \<open>\<^verbatim>\<open>df[df.duplicated(subset=['product_id'], keep=False)]['product_id'].tolist()\<close>\<close>
  "check_duplicate_products df =
     filter (\<lambda>p. 1 < count_list (map (csv_product_id \<circ> snd) df) p) (map (csv_product_id \<circ> snd) df)"

fun drop_duplicates :: "pyval list \<Rightarrow> dataframe \<Rightarrow> dataframe" where
  \<comment> \<open>\<^verbatim>\<open>df.drop_duplicates(subset=['product_id'], keep='first')\<close>; the first argument holds
      the ids already seen\<close>
  "drop_duplicates seen [] = []"
| "drop_duplicates seen (x # xs) =
     (if csv_product_id (snd x) \<in> set seen then drop_duplicates seen xs
      else x # drop_duplicates (csv_product_id (snd x) # seen) xs)"

datatype run_error =
    FailedToLoadCSV
  | FailedToConnect
  | FoundDuplicateProductIDs "pyval set"
  | FailedToInsertBatch nat
  | CriticalError string

record results =
  total_rows :: nat
  successful_inserts :: nat
  validation_failures :: nat
  duplicate_failures :: nat
  existing_products :: nat
  errors :: "run_error list"

text \<open>The inner loop over the rows of a chunk.\<close>

fun validate_rows ::
  "interpreter \<Rightarrow> (string \<rightharpoonup> meta_row) \<Rightarrow> (string \<rightharpoonup> price_info) \<Rightarrow> dataframe \<Rightarrow>
     collator \<times> results \<times> catalogue_row list \<Rightarrow> collator \<times> results \<times> catalogue_row list" where
  "validate_rows py metadata price_details [] st = st"
| "validate_rows py metadata price_details ((index, row) # rest) (self, res, valid_data) =
     (case validate_and_collate_row py self row index metadata price_details of
        (Valid d, self') \<Rightarrow>
          validate_rows py metadata price_details rest (self', res, valid_data @ [d])
      | (Invalid errs d, self') \<Rightarrow>
          validate_rows py metadata price_details rest
            (self'\<lparr>validation_errors := validation_errors self' @ [(index, csv_product_id row, errs)]\<rparr>,
             res\<lparr>validation_failures := validation_failures res + 1\<rparr>,
             valid_data))"

text \<open>
  The state the outer loop carries from chunk to chunk. \<open>valid_data\<close> is empty at the
  start of every chunk, since the loop body resets it, and so is local to a chunk.
\<close>

record run_state =
  conn :: connection
  self :: collator
  res :: results
  batch_count :: nat

definition collate_chunk ::
  "reference_sources \<Rightarrow> interpreter \<Rightarrow> dataframe \<Rightarrow> collator \<times> results \<Rightarrow>
     collator \<times> results \<times> catalogue_row list" where
  \<comment> \<open>the first half of the loop body: both lookups, then every row of the chunk\<close>
  "collate_chunk R py df_chunk sr =
     (let product_ids_chunk = map (\<lambda>x. strip (py_str (csv_product_id (snd x)))) df_chunk;
          item_codes_chunk =
            filter (\<lambda>code. code \<noteq> [] \<and> code \<noteq> ''nan'')
              (map (\<lambda>x. strip (py_str (csv_item_code (snd x)))) df_chunk);
          metadata = get_metadata_batch R product_ids_chunk;
          price_details = get_price_details_batch R item_codes_chunk
      in validate_rows py metadata price_details df_chunk (fst sr, snd sr, []))"

definition process_chunk ::
  "reference_sources \<Rightarrow> destination \<Rightarrow> interpreter \<Rightarrow> dataframe \<Rightarrow> run_state \<Rightarrow>
     string option \<times> run_state" where
  \<comment> \<open>the loop body: collate the chunk, then insert what is valid; \<open>Some msg\<close> is an
      exception that leaves the loop\<close>
  "process_chunk R D py df_chunk st =
     (case collate_chunk R py df_chunk (self st, res st) of
        (self1, res1, valid_data) \<Rightarrow>
          if valid_data \<noteq> [] then
            (case insert_batch D (conn st) valid_data of
               (Inl msg, c') \<Rightarrow> (Some msg, st\<lparr> conn := c', self := self1, res := res1 \<rparr>)
             | (Inr True, c') \<Rightarrow>
                 (None,
                  st\<lparr> conn := c', self := self1,
                      res := res1\<lparr>successful_inserts := successful_inserts res1 + length valid_data\<rparr>,
                      batch_count := batch_count st + 1 \<rparr>)
             | (Inr False, c') \<Rightarrow>
                 (None,
                  st\<lparr> conn := c', self := self1,
                      res := res1\<lparr>errors := errors res1 @ [FailedToInsertBatch (batch_count st + 1)]\<rparr> \<rparr>))
          else (None, st\<lparr> self := self1, res := res1 \<rparr>))"

function process_chunks ::
  "reference_sources \<Rightarrow> destination \<Rightarrow> interpreter \<Rightarrow> nat \<Rightarrow> dataframe \<Rightarrow> nat \<Rightarrow>
     run_state \<Rightarrow> string option \<times> run_state" where
  \<comment> \<open>\<^verbatim>\<open>for chunk_start in range(0, len(df), batch_size)\<close> with a positive step\<close>
  "process_chunks R D py batch_size df chunk_start st =
     (if 0 < batch_size \<and> chunk_start < length df
      then (case process_chunk R D py (take batch_size (drop chunk_start df)) st of
              (Some msg, st') \<Rightarrow> (Some msg, st')
            | (None, st') \<Rightarrow> process_chunks R D py batch_size df (chunk_start + batch_size) st')
      else (None, st))"
  by pat_completeness auto
termination
  by (relation "measure (\<lambda>(R, D, py, batch_size, df, chunk_start, st). length df - chunk_start)") auto

declare process_chunks.simps [simp del]

definition new_collator :: collator where
  "new_collator =
     \<lparr> validation_errors = [], error_logger = [], skipped_no_metadata = 0, skipped_no_pricing = 0 \<rparr>"

definition new_results :: results where
  "new_results =
     \<lparr> total_rows = 0, successful_inserts = 0, validation_failures = 0, duplicate_failures = 0,
       existing_products = 0, errors = [] \<rparr>"

text \<open>
  How \<^verbatim>\<open>collate_and_migrate\<close> ends once the loop is left. An exception that leaves the loop
  reaches the outer handler, which adds a critical error to the summary; the summary is
  returned as it stands then. The \<^verbatim>\<open>finally\<close> clause closes the connection either way.
\<close>

definition end_of_run :: "string option \<times> run_state \<Rightarrow> results \<times> collator \<times> connection option" where
  "end_of_run out =
     (case out of
        (None, st) \<Rightarrow> (res st, self st, Some (disconnect_db (conn st)))
      | (Some msg, st) \<Rightarrow>
          (res st\<lparr>errors := errors (res st) @ [CriticalError msg]\<rparr>, self st,
           Some (disconnect_db (conn st))))"

text \<open>
  \<^verbatim>\<open>collate_and_migrate(csv_file_path, batch_size)\<close>. The file as \<^verbatim>\<open>load_csv\<close> returns it is
  \<open>csv\<close> (\<open>None\<close> when it cannot be read); \<open>store\<close> is the catalogue as
  \<^verbatim>\<open>connect_db\<close> finds it (\<open>None\<close> when the connection fails). The result is the summary,
  the collator and the state of the store after \<^verbatim>\<open>disconnect_db\<close>. A step of zero makes
  \<^verbatim>\<open>range\<close> raise, and a negative step gives no chunk. Writing the error report and
  stopping the logger thread touch files only.
\<close>

definition collate_and_migrate ::
  "reference_sources \<Rightarrow> destination \<Rightarrow> interpreter \<Rightarrow> csv_row list option \<Rightarrow>
     connection option \<Rightarrow> int \<Rightarrow> results \<times> collator \<times> connection option" where
  "collate_and_migrate R D py csv store batch_size =
     (case csv of
        None \<Rightarrow> (new_results\<lparr>errors := [FailedToLoadCSV]\<rparr>, new_collator, None)
      | Some rows \<Rightarrow>
          (let r0 = new_results\<lparr>total_rows := length rows\<rparr>
           in (case store of
                 None \<Rightarrow> (r0\<lparr>errors := [FailedToConnect]\<rparr>, new_collator, None)
               | Some c \<Rightarrow>
                   (let df0 = zip [0..<length rows] rows;
                        duplicates = check_duplicate_products df0;
                        r1 = (if duplicates \<noteq> []
                              then r0\<lparr> duplicate_failures := length duplicates,
                                      errors := errors r0 @ [FoundDuplicateProductIDs (set duplicates)] \<rparr>
                              else r0);
                        df1 = (if duplicates \<noteq> [] then drop_duplicates [] df0 else df0);
                        existing = check_existing_products D c (map (csv_product_id \<circ> snd) df1);
                        r2 = (if existing \<noteq> [] then r1\<lparr>existing_products := length existing\<rparr> else r1);
                        df2 = (if existing \<noteq> []
                               then filter (\<lambda>x. csv_product_id (snd x) \<notin> PStr ` set existing) df1
                               else df1);
                        st0 = \<lparr> conn = c, self = new_collator, res = r2, batch_count = 0 \<rparr>
                    in end_of_run
                         (if batch_size = 0 then (Some ''range() arg 3 must not be zero'', st0)
                          else if batch_size < 0 then (None, st0)
                          else process_chunks R D py (nat batch_size) df2 0 st0)))))"

text \<open>Two abbreviations for statements about the counters of a summary.\<close>

definition tally :: "results \<Rightarrow> nat" where
  \<comment> \<open>the rows a summary accounts for as inserted or as failed in validation\<close>
  "tally r = successful_inserts r + validation_failures r"

definition same_header :: "results \<Rightarrow> results \<Rightarrow> bool" where
  \<comment> \<open>the counters set before the loop are the same in both summaries\<close>
  "same_header r r' = (total_rows r' = total_rows r \<and> duplicate_failures r' = duplicate_failures r
      \<and> existing_products r' = existing_products r)"

section \<open>Sample data\<close>

text \<open>
  Small reference tables and stores on which the pipeline is run below: a metadata row
  and a price row for a given key, sources in which no query fails, a store that
  refuses nothing, one that refuses a product, one whose connection is lost, and an empty
  catalogue.
\<close>

definition meta_of :: "string \<Rightarrow> meta_row" where
  "meta_of p = \<lparr> mr_product_id = p, mr_name = Some ''Tablet'', mr_columns = [] \<rparr>"

definition price_of :: "string \<Rightarrow> price_row" where
  "price_of code =
     \<lparr> pr_item_code = Some code, pr_original_item_code = None, pr_mrp = Some (1000, 2),
       pr_purchase_rate = Some (750, 2), pr_gst_rate = Some (0, 2),
       pr_plazza_selling_price_incl_gst = Some (900, 2), pr_effective_customer_discount = None,
       pr_distributor = Some ''D1'', pr_hsn_code = None \<rparr>"

definition sources_of :: "string list \<Rightarrow> string list \<Rightarrow> reference_sources" where
  "sources_of ids codes =
     \<lparr> original_all_products = map meta_of ids, distributor_master_list = map price_of codes,
       metadata_query_fails = (\<lambda>ids. False), price_query_fails = (\<lambda>codes. False) \<rparr>"

definition accepting_store :: destination where
  "accepting_store =
     \<lparr> statement_fails = (\<lambda>rows r. False), commit_fails = (\<lambda>rows. False),
       existing_query_fails = (\<lambda>ids. False), rollback_raises = (\<lambda>rows. None) \<rparr>"

definition refusing_store :: "string \<Rightarrow> destination" where
  \<comment> \<open>a store that refuses every row with the given product id, as a constraint would\<close>
  "refusing_store p =
     \<lparr> statement_fails = (\<lambda>rows r. product_id r = p), commit_fails = (\<lambda>rows. False),
       existing_query_fails = (\<lambda>ids. False), rollback_raises = (\<lambda>rows. None) \<rparr>"

definition broken_store :: destination where
  \<comment> \<open>a store whose connection is lost after the existence query\<close>
  "broken_store =
     \<lparr> statement_fails = (\<lambda>rows r. True), commit_fails = (\<lambda>rows. True),
       existing_query_fails = (\<lambda>ids. False),
       rollback_raises = (\<lambda>rows. Some ''the connection is lost'') \<rparr>"

definition empty_catalogue :: connection where
  "empty_catalogue = \<lparr> committed = [], pending = [] \<rparr>"

definition stored_row :: "string \<Rightarrow> catalogue_row" where
  \<comment> \<open>a row the catalogue already holds under the given product id\<close>
  "stored_row p =
     \<lparr> product_id = p, dist_item_code = ''X0'', name = None, descriptive = [],
       inventory_quantity = 0, location = None, pricing = price_entry (price_of ''X0'') \<rparr>"

definition catalogue_of :: "string list \<Rightarrow> connection" where
  "catalogue_of ps = \<lparr> committed = map stored_row ps, pending = [] \<rparr>"

definition csv_of :: "pyval \<Rightarrow> pyval \<Rightarrow> csv_row" where
  \<comment> \<open>a row of a file that has the two key columns only\<close>
  "csv_of p code =
     \<lparr> csv_product_id = p, csv_item_code = code, csv_store_inventory = None, csv_location = None \<rparr>"

definition two_rows :: dataframe where
  \<comment> \<open>a file of two rows\<close>
  "two_rows = zip [0..<2] [csv_of (PStr ''P1'') (PStr ''X1''), csv_of (PStr ''P2'') (PStr ''X2'')]"

definition four_rows :: "csv_row list" where
  \<comment> \<open>a file of four rows\<close>
  "four_rows = [csv_of (PStr ''P9'') (PStr ''X9''), csv_of (PStr ''P1'') (PStr ''X1''),
                csv_of (PStr ''P2'') (PStr ''X2''), csv_of (PStr ''P3'') (PStr ''X3'')]"

definition written_row :: "string \<Rightarrow> string \<Rightarrow> catalogue_row" where
  \<comment> \<open>the merged record of a two-column row that finds the sample metadata and price\<close>
  "written_row p code =
     \<lparr> product_id = p, dist_item_code = code, name = Some ''Tablet'', descriptive = [],
       inventory_quantity = 0, location = None, pricing = price_entry (price_of code) \<rparr>"

definition start_state :: run_state where
  \<comment> \<open>the loop state of a run that has just connected to an empty catalogue\<close>
  "start_state = \<lparr> conn = empty_catalogue, self = new_collator, res = new_results, batch_count = 0 \<rparr>"

definition cpython :: interpreter where
  \<comment> \<open>the limits of a stock interpreter; the text of a float, list or dict is left empty\<close>
  "cpython = \<lparr> repr_of = (\<lambda>j. []), nesting_room = 990, max_str_digits = 4300 \<rparr>"

section \<open>Encodings of a location\<close>







section \<open>Properties\<close>

subsection \<open>Inventory quantity\<close>

text \<open>
  C10. The claim is that \<^verbatim>\<open>_validate_inventory_quantity\<close> returns for every input and never
  raises. On the cell \<^verbatim>\<open>inf\<close> it does not: \<^verbatim>\<open>float\<close> accepts the text, \<^verbatim>\<open>int\<close> raises
  \<^verbatim>\<open>OverflowError\<close> on the infinity, and the handler catches \<^verbatim>\<open>ValueError\<close> and
  \<^verbatim>\<open>TypeError\<close> only. The same happens for \<^verbatim>\<open>-Infinity\<close> with blanks around it.
\<close>

theorem inventory_quantity_infinity_raises:
  "validate_inventory_quantity (PStr ''inf'') [] = Inl OverflowError
   \<and> validate_inventory_quantity (PStr '' -Infinity '') [] = Inl OverflowError"
  by code_simp

subsection \<open>Location\<close>

text \<open>
  C9. The claim is that the normalised location is never an empty sequence. A cell that
  holds only a comma takes the comma branch, where every piece is blank and is filtered
  out: the result is the empty list, not \<^verbatim>\<open>None\<close>. The branch for a single token does
  turn an empty result into \<^verbatim>\<open>None\<close>.
\<close>

theorem location_of_lone_comma_is_empty:
  "validate_location_array py (PStr '','') errs = (Some [], errs)
   \<and> validate_location_array py (PStr ''[]'') errs = (Some [], errs)
   \<and> validate_location_array py (PStr ''{}'') errs = (None, errs)"
proof -
  have j: "json_loads py ''[]'' = Inr (JArr [])"
    by (simp add: json_loads_def skip_ws_def json_ws_def)
  have t: "strip_chars ''{}'' (strip ''[]'') = ''[]''" by code_simp
  have b: "starts_with ''['' ''[]''" "ends_with '']'' ''[]''" by code_simp+
  have n: "\<not> isna (PStr ''[]'')" by code_simp
  have c2: "validate_location_array py (PStr ''[]'') errs = (Some [], errs)"
    by (simp add: validate_location_array_def Let_def j t b n)
  have c1: "validate_location_array py (PStr '','') errs = (Some [], errs)" by code_simp
  have c3: "validate_location_array py (PStr ''{}'') errs = (None, errs)" by code_simp
  from c1 c2 c3 show ?thesis by simp
qed

subsection \<open>Encodings of the same sequence\<close>





































subsection \<open>Price lookup\<close>

text \<open>
  C6. The claim is that every requested code whose lower-cased form matches a record gets
  that record under its own spelling. \<open>code_mapping\<close> is keyed by the lower-cased code,
  so of two requested codes that differ in case only the later one is kept: asked for
  \<^verbatim>\<open>abc\<close> and \<^verbatim>\<open>ABC\<close> together, the lookup returns the record under \<^verbatim>\<open>ABC\<close> and nothing
  under \<^verbatim>\<open>abc\<close>, although \<^verbatim>\<open>abc\<close> asked for alone gets it.
\<close>

theorem price_lookup_case_collision:
  "get_price_details_batch (sources_of [] [''abc'']) [''abc'', ''ABC''] ''abc'' = None
   \<and> get_price_details_batch (sources_of [] [''abc'']) [''abc'', ''ABC''] ''ABC''
       = Some (price_entry (price_of ''abc''))
   \<and> get_price_details_batch (sources_of [] [''abc'']) [''abc''] ''abc''
       = Some (price_entry (price_of ''abc''))"
  by code_simp

subsection \<open>Duplicates\<close>

text \<open>
  C5. The claim is that of two rows with the same \<^verbatim>\<open>product_id\<close> one is removed and one
  duplicate failure is counted. \<^verbatim>\<open>check_duplicate_products\<close> lists every row of a group
  of duplicates (\<^verbatim>\<open>keep=False\<close>), so the run reports two duplicate failures, while
  \<^verbatim>\<open>drop_duplicates\<close> removes one row and the other is inserted.
\<close>

theorem two_rows_same_id_count_two_duplicates:
  "(case collate_and_migrate (sources_of [''P1''] [''X1'', ''X2'']) accepting_store cpython
          (Some [csv_of (PStr ''P1'') (PStr ''X1''), csv_of (PStr ''P1'') (PStr ''X2'')])
          (Some empty_catalogue) 50 of
      (r, s, c) \<Rightarrow>
        (total_rows r, duplicate_failures r, successful_inserts r, validation_failures r,
         map_option (map dist_item_code \<circ> committed) c))
   = (2, 2, 1, 0, Some [''X1''])"
  by code_simp

subsection \<open>Required identifiers\<close>

text \<open>
  C8. The claim is that a row whose \<^verbatim>\<open>product_id\<close> or \<^verbatim>\<open>item_code\<close> is missing is rejected
  for the missing identifier and never written. A missing cell is NaN, and \<^verbatim>\<open>str\<close> of
  it is the text \<^verbatim>\<open>nan\<close>, which is not empty: the row passes the two checks. With the
  item code missing it is rejected later for having no pricing; with the product id
  missing and a metadata row keyed \<^verbatim>\<open>nan\<close> it is accepted and written.
\<close>

theorem missing_identifier_passes_required_check:
  "fst (validate_and_collate_row cpython new_collator (csv_of (PStr ''P1'') PNaN) 0
          (get_metadata_batch (sources_of [''P1''] [''X1'']) [''P1''])
          (get_price_details_batch (sources_of [''P1''] [''X1'']) []))
     = Invalid [''Missing pricing data''] None
   \<and> (case collate_and_migrate (sources_of [''nan''] [''X1'']) accepting_store cpython
            (Some [csv_of PNaN (PStr ''X1'')]) (Some empty_catalogue) 50 of
        (r, s, c) \<Rightarrow>
          (successful_inserts r, validation_failures r, map_option (map product_id \<circ> committed) c))
     = (1, 0, Some [''nan''])"
  by code_simp

subsection \<open>Acceptance of a matched row\<close>





subsection \<open>A failed batch insert\<close>

text \<open>
  Statements only add pending rows. An insert of a non-empty batch that does not succeed
  ends in the handler, with the connection as the statements left it.
\<close>

lemma executemany_committed:
  "committed (snd (executemany D c rows)) = committed c"
  by (induction rows arbitrary: c) simp_all

lemma insert_batch_not_done:
  assumes "valid_data \<noteq> []"
    and "fst (insert_batch D c valid_data) \<noteq> Inr True"
  shows "insert_batch D c valid_data = insert_failed D (snd (executemany D c valid_data))"
proof -
  obtain ok c1 where ex: "executemany D c valid_data = (ok, c1)"
    by (cases "executemany D c valid_data")
  with assms show ?thesis
    by (auto simp: insert_batch_def split: if_splits bool.splits)
qed

text \<open>
  C3 (as amended). The claim is that a failed insert, whatever made it fail, is rolled
  back, recorded as a batch-level error and never ends the run. The handler of
  \<^verbatim>\<open>insert_batch\<close> calls \<^verbatim>\<open>rollback\<close> unguarded, so there are two cases. In both, the
  catalogue holds the rows it held before. When the rollback succeeds, nothing is left
  pending, \<^verbatim>\<open>insert_batch\<close> returns \<^verbatim>\<open>False\<close>, the run records \<^verbatim>\<open>Failed to insert batch n\<close>
  in the error list of its summary, leaves \<open>successful_inserts\<close> and \<open>batch_count\<close>
  alone, and goes on with the next chunk. When the rollback raises, \<^verbatim>\<open>insert_batch\<close>
  raises, the run ends there with a critical error in the error list of its summary,
  and closing the connection drops the pending rows.
\<close>

theorem failed_insert_is_recorded_unless_rollback_raises:
  assumes "0 < batch_size"
    and "chunk_start < length df"
    and "collate_chunk R py (take batch_size (drop chunk_start df)) (self st, res st)
           = (self1, res1, valid_data)"
    and "valid_data \<noteq> []"
    and "fst (insert_batch D (conn st) valid_data) \<noteq> Inr True"
    and "c1 = snd (executemany D (conn st) valid_data)"
  shows "committed c1 = committed (conn st)
     \<and> (case rollback D c1 of
          Inr c' \<Rightarrow>
            insert_batch D (conn st) valid_data = (Inr False, c')
            \<and> committed c' = committed (conn st) \<and> pending c' = []
            \<and> process_chunks R D py batch_size df chunk_start st
                = process_chunks R D py batch_size df (chunk_start + batch_size)
                    (st\<lparr> conn := c', self := self1,
                         res := res1\<lparr>errors := errors res1
                                  @ [FailedToInsertBatch (batch_count st + 1)]\<rparr> \<rparr>)
        | Inl msg \<Rightarrow>
            insert_batch D (conn st) valid_data = (Inl msg, c1)
            \<and> end_of_run (process_chunks R D py batch_size df chunk_start st)
                = (res1\<lparr>errors := errors res1 @ [CriticalError msg]\<rparr>, self1,
                   Some (disconnect_db c1))
            \<and> committed (disconnect_db c1) = committed (conn st)
            \<and> pending (disconnect_db c1) = [])"
proof -
  have com: "committed c1 = committed (conn st)"
    using assms(6) executemany_committed[of D "conn st" valid_data] by simp
  have ib: "insert_batch D (conn st) valid_data = insert_failed D c1"
    using insert_batch_not_done[OF assms(4,5)] assms(6) by simp
  have step: "process_chunks R D py batch_size df chunk_start st
      = (case process_chunk R D py (take batch_size (drop chunk_start df)) st of
           (Some msg, st') \<Rightarrow> (Some msg, st')
         | (None, st') \<Rightarrow> process_chunks R D py batch_size df (chunk_start + batch_size) st')"
    using assms(1,2) by (subst process_chunks.simps) simp
  show ?thesis
  proof (cases "rollback D c1")
    case (Inl msg)
    then have i: "insert_batch D (conn st) valid_data = (Inl msg, c1)"
      by (simp add: ib insert_failed_def)
    have pc: "process_chunk R D py (take batch_size (drop chunk_start df)) st
        = (Some msg, st\<lparr> conn := c1, self := self1, res := res1 \<rparr>)"
      using assms(3,4) i by (simp add: process_chunk_def)
    have "end_of_run (process_chunks R D py batch_size df chunk_start st)
            = (res1\<lparr>errors := errors res1 @ [CriticalError msg]\<rparr>, self1, Some (disconnect_db c1))"
      by (simp add: step pc end_of_run_def)
    with Inl i com show ?thesis by (simp add: disconnect_db_def)
  next
    case (Inr c')
    then have i: "insert_batch D (conn st) valid_data = (Inr False, c')"
      by (simp add: ib insert_failed_def)
    from Inr have c': "c' = c1\<lparr>pending := []\<rparr>"
      by (simp add: rollback_def split: option.splits)
    have pc: "process_chunk R D py (take batch_size (drop chunk_start df)) st
        = (None, st\<lparr> conn := c', self := self1,
              res := res1\<lparr>errors := errors res1 @ [FailedToInsertBatch (batch_count st + 1)]\<rparr> \<rparr>)"
      using assms(3,4) i by (simp add: process_chunk_def)
    from Inr i com c' show ?thesis by (simp add: step pc)
  qed
qed

text \<open>
  A file of two rows in chunks of one. Against a store that refuses the first row, the
  first insert fails and is recorded and the second row is written. Against a store whose
  connection is lost, the first insert fails, the rollback raises, and the run ends with
  a critical error.
\<close>

theorem failed_insert_is_recorded_unless_rollback_raises_witness:
  "(case process_chunks (sources_of [''P1'', ''P2''] [''X1'', ''X2'']) (refusing_store ''P1'')
               cpython 1 two_rows 0 start_state of
      (out, st) \<Rightarrow>
        (out, map product_id (committed (conn st)), pending (conn st), errors (res st),
         successful_inserts (res st), validation_failures (res st)))
     = (None, [''P2''], [], [FailedToInsertBatch 1], 1, 0)
   \<and> (case end_of_run (process_chunks (sources_of [''P1'', ''P2''] [''X1'', ''X2'']) broken_store
               cpython 1 two_rows 0 start_state) of
        (r, s, c) \<Rightarrow> (errors r, successful_inserts r, map_option committed c))
     = ([CriticalError ''the connection is lost''], 0, Some [])"
proof -
  let ?R = "sources_of [''P1'', ''P2''] [''X1'', ''X2'']"
  let ?D = "refusing_store ''P1''"
  let ?v = "[\<lparr> product_id = ''P1'', dist_item_code = ''X1'', name = Some ''Tablet'',
             descriptive = [], inventory_quantity = 0, location = None,
             pricing = price_entry (price_of ''X1'') \<rparr>]"
  have h1: "(0::nat) < 1" by simp
  have h2: "0 < length two_rows" by code_simp
  have h3: "collate_chunk ?R cpython (take 1 (drop 0 two_rows)) (self start_state, res start_state)
              = (new_collator, new_results, ?v)" by code_simp
  have h4: "?v \<noteq> []" by simp
  have h5: "fst (insert_batch ?D (conn start_state) ?v) \<noteq> Inr True" by code_simp
  have h6: "empty_catalogue = snd (executemany ?D (conn start_state) ?v)" by code_simp
  have g5: "fst (insert_batch broken_store (conn start_state) ?v) \<noteq> Inr True" by code_simp
  have g6: "empty_catalogue = snd (executemany broken_store (conn start_state) ?v)" by code_simp
  have r1: "rollback ?D empty_catalogue = Inr empty_catalogue" by code_simp
  have r2: "rollback broken_store empty_catalogue = Inl ''the connection is lost''" by code_simp
  note one = failed_insert_is_recorded_unless_rollback_raises[OF h1 h2 h3 h4 h5 h6]
  note two = failed_insert_is_recorded_unless_rollback_raises[OF h1 h2 h3 h4 g5 g6]
  have rest: "(case process_chunks ?R ?D cpython 1 two_rows (0 + 1)
                 (start_state\<lparr> conn := empty_catalogue, self := new_collator,
                     res := new_results\<lparr>errors := errors new_results
                        @ [FailedToInsertBatch (batch_count start_state + 1)]\<rparr> \<rparr>) of
      (out, st) \<Rightarrow>
        (out, map product_id (committed (conn st)), pending (conn st), errors (res st),
         successful_inserts (res st), validation_failures (res st)))
     = (None, [''P2''], [], [FailedToInsertBatch 1], 1, 0)" by code_simp
  from one rest have c1: "(case process_chunks ?R ?D cpython 1 two_rows 0 start_state of
      (out, st) \<Rightarrow>
        (out, map product_id (committed (conn st)), pending (conn st), errors (res st),
         successful_inserts (res st), validation_failures (res st)))
     = (None, [''P2''], [], [FailedToInsertBatch 1], 1, 0)"
    by (simp add: r1)
  have e: "errors new_results = []" "successful_inserts new_results = 0"
    "committed (disconnect_db empty_catalogue) = []"
    by (simp_all add: new_results_def disconnect_db_def empty_catalogue_def)
  from two have c2: "(case end_of_run (process_chunks ?R broken_store cpython 1 two_rows 0 start_state) of
        (r, s, c) \<Rightarrow> (errors r, successful_inserts r, map_option committed c))
     = ([CriticalError ''the connection is lost''], 0, Some [])"
    by (simp add: r2 e)
  from c1 c2 show ?thesis by blast
qed

text \<open>
  C3 (as stated) fails: with the connection lost, the run below records no batch-level
  error but a critical one, and it never reaches its second row, which has no metadata
  and would be counted as a validation failure. Against a store that only refuses the
  first row, the batch-level error is recorded and the second row is counted.
\<close>

theorem lost_connection_ends_the_run:
  "(case collate_and_migrate (sources_of [''P1''] [''X1'', ''X2'']) broken_store cpython
          (Some [csv_of (PStr ''P1'') (PStr ''X1''), csv_of (PStr ''P2'') (PStr ''X2'')])
          (Some empty_catalogue) 1 of
      (r, s, c) \<Rightarrow> (errors r, successful_inserts r, validation_failures r))
     = ([CriticalError ''the connection is lost''], 0, 0)
   \<and> (case collate_and_migrate (sources_of [''P1''] [''X1'', ''X2'']) (refusing_store ''P1'') cpython
          (Some [csv_of (PStr ''P1'') (PStr ''X1''), csv_of (PStr ''P2'') (PStr ''X2'')])
          (Some empty_catalogue) 1 of
      (r, s, c) \<Rightarrow> (errors r, successful_inserts r, validation_failures r))
     = ([FailedToInsertBatch 1], 0, 1)"
  by code_simp

subsection \<open>Accounting\<close>

text \<open>
  The row loop adds every row of a chunk either to \<open>valid_data\<close> or to the validation
  failures, and touches no other counter. A chunk, and so the whole loop, only appends to
  the error list; where it appends nothing and no exception leaves it, every row it went
  through is counted as inserted or as a validation failure.
\<close>

lemma validate_rows_counts:
  "validate_rows py md pd chunk (s, r, v) = (s', r', v') \<Longrightarrow>
     validation_failures r' + length v' = validation_failures r + length v + length chunk
     \<and> errors r' = errors r \<and> successful_inserts r' = successful_inserts r \<and> same_header r r'"
proof (induction chunk arbitrary: s r v)
  case Nil
  then show ?case by (simp add: same_header_def)
next
  case (Cons x chunk)
  obtain index row where x: "x = (index, row)" by (cases x)
  obtain vd s1 where vr: "validate_and_collate_row py s row index md pd = (vd, s1)"
    by (cases "validate_and_collate_row py s row index md pd")
  show ?case
  proof (cases vd)
    case (Valid d)
    with Cons.prems x vr
    have "validate_rows py md pd chunk (s1, r, v @ [d]) = (s', r', v')" by simp
    from Cons.IH[OF this] show ?thesis by simp
  next
    case (Invalid errs d)
    with Cons.prems x vr
    have "validate_rows py md pd chunk
            (s1\<lparr>validation_errors := validation_errors s1 @ [(index, csv_product_id row, errs)]\<rparr>,
             r\<lparr>validation_failures := validation_failures r + 1\<rparr>, v) = (s', r', v')" by simp
    from Cons.IH[OF this] show ?thesis by (simp add: same_header_def)
  qed
qed

lemma process_chunk_tally:
  "\<exists>es. errors (res (snd (process_chunk R D py chunk st))) = errors (res st) @ es
        \<and> (fst (process_chunk R D py chunk st) = None \<and> es = []
             \<longrightarrow> tally (res (snd (process_chunk R D py chunk st))) = tally (res st) + length chunk)
        \<and> same_header (res st) (res (snd (process_chunk R D py chunk st)))"
proof -
  obtain s1 r1 v where cc: "collate_chunk R py chunk (self st, res st) = (s1, r1, v)"
    by (cases "collate_chunk R py chunk (self st, res st)") auto
  then have "validate_rows py
        (get_metadata_batch R (map (\<lambda>x. strip (py_str (csv_product_id (snd x)))) chunk))
        (get_price_details_batch R (filter (\<lambda>code. code \<noteq> [] \<and> code \<noteq> ''nan'')
              (map (\<lambda>x. strip (py_str (csv_item_code (snd x)))) chunk)))
        chunk (self st, res st, []) = (s1, r1, v)"
    by (simp add: collate_chunk_def Let_def)
  from validate_rows_counts[OF this]
  have cnt: "validation_failures r1 + length v = validation_failures (res st) + length chunk"
    and er: "errors r1 = errors (res st)"
    and si: "successful_inserts r1 = successful_inserts (res st)"
    and hd: "same_header (res st) r1" by simp_all
  obtain out c' where ib: "insert_batch D (conn st) v = (out, c')"
    by (cases "insert_batch D (conn st) v")
  show ?thesis
  proof (cases "v = []")
    case True
    with cc cnt er si hd show ?thesis
      by (simp add: process_chunk_def tally_def same_header_def)
  next
    case False
    show ?thesis
    proof (cases out)
      case (Inl msg)
      with False cc ib cnt er si hd show ?thesis
        by (simp add: process_chunk_def tally_def same_header_def)
    next
      case (Inr ok)
      show ?thesis
      proof (cases ok)
        case True
        with Inr False cc ib cnt er si hd show ?thesis
          by (simp add: process_chunk_def tally_def same_header_def)
      next
        case False
        with Inr \<open>v \<noteq> []\<close> cc ib cnt er si hd show ?thesis
          by (simp add: process_chunk_def tally_def same_header_def)
      qed
    qed
  qed
qed

lemma process_chunks_tally:
  "0 < bs \<Longrightarrow>
   \<exists>es. errors (res (snd (process_chunks R D py bs df start st))) = errors (res st) @ es
        \<and> (fst (process_chunks R D py bs df start st) = None \<and> es = []
             \<longrightarrow> tally (res (snd (process_chunks R D py bs df start st)))
                   = tally (res st) + (length df - start))
        \<and> same_header (res st) (res (snd (process_chunks R D py bs df start st)))"
proof (induction R D py bs df start st rule: process_chunks.induct)
  case (1 R D py bs df start st)
  show ?case
  proof (cases "start < length df")
    case False
    then have "process_chunks R D py bs df start st = (None, st)"
      by (subst process_chunks.simps) simp
    with False show ?thesis by (simp add: same_header_def)
  next
    case True
    let ?chunk = "take bs (drop start df)"
    obtain out1 st1 where pc: "process_chunk R D py ?chunk st = (out1, st1)"
      by (cases "process_chunk R D py ?chunk st")
    from process_chunk_tally[of R D py ?chunk st] pc
    obtain es1 where e1: "errors (res st1) = errors (res st) @ es1"
      and t1: "out1 = None \<and> es1 = [] \<longrightarrow> tally (res st1) = tally (res st) + length ?chunk"
      and h1: "same_header (res st) (res st1)" by auto
    show ?thesis
    proof (cases out1)
      case (Some msg)
      have "process_chunks R D py bs df start st = (Some msg, st1)"
        using True "1.prems" pc Some by (subst process_chunks.simps) simp
      with e1 h1 show ?thesis by simp
    next
      case None
      have unfold: "process_chunks R D py bs df start st
                     = process_chunks R D py bs df (start + bs) st1"
        using True "1.prems" pc None by (subst process_chunks.simps) simp
      have ih: "\<exists>es2. errors (res (snd (process_chunks R D py bs df (start + bs) st1)))
                            = errors (res st1) @ es2
        \<and> (fst (process_chunks R D py bs df (start + bs) st1) = None \<and> es2 = []
                   \<longrightarrow> tally (res (snd (process_chunks R D py bs df (start + bs) st1)))
                          = tally (res st1) + (length df - (start + bs)))
        \<and> same_header (res st1) (res (snd (process_chunks R D py bs df (start + bs) st1)))"
        using True "1.prems" pc None by (intro "1.IH") auto
      from ih
      obtain es2 where e2: "errors (res (snd (process_chunks R D py bs df (start + bs) st1)))
                            = errors (res st1) @ es2"
        and t2: "fst (process_chunks R D py bs df (start + bs) st1) = None \<and> es2 = []
                   \<longrightarrow> tally (res (snd (process_chunks R D py bs df (start + bs) st1)))
                          = tally (res st1) + (length df - (start + bs))"
        and h2: "same_header (res st1) (res (snd (process_chunks R D py bs df (start + bs) st1)))"
        by auto
      have len: "length ?chunk + (length df - (start + bs)) = length df - start"
        using True by simp
      show ?thesis
        unfolding unfold
      proof (intro exI[of _ "es1 @ es2"] conjI impI)
        show "errors (res (snd (process_chunks R D py bs df (start + bs) st1)))
                = errors (res st) @ es1 @ es2"
          using e1 e2 by simp
        show "tally (res (snd (process_chunks R D py bs df (start + bs) st1)))
                = tally (res st) + (length df - start)"
          if "fst (process_chunks R D py bs df (start + bs) st1) = None \<and> es1 @ es2 = []"
          using that t1 t2 len None by simp
        show "same_header (res st) (res (snd (process_chunks R D py bs df (start + bs) st1)))"
          using h1 h2 by (simp add: same_header_def)
      qed
    qed
  qed
qed

text \<open>
  Without duplicates the ids of the file are distinct, and then the rows that the
  existence filter drops are as many as the ids the query returned, provided the
  catalogue holds no id twice.
\<close>

lemma count_le_1_distinct:
  "(\<And>a. a \<in> set xs \<Longrightarrow> count_list xs a \<le> 1) \<Longrightarrow> distinct xs"
proof (induction xs)
  case Nil
  then show ?case by simp
next
  case (Cons x xs)
  from Cons.prems[of x] have "count_list xs x = 0" by simp
  then have notin: "x \<notin> set xs" by (simp add: count_list_0_iff)
  have "count_list xs a \<le> 1" if "a \<in> set xs" for a
    using Cons.prems[of a] that by (simp split: if_splits)
  from Cons.IH[OF this] notin show ?case by simp
qed

lemma no_duplicates_distinct:
  assumes "filter (\<lambda>p. 1 < count_list xs p) xs = []"
  shows "distinct xs"
proof (rule count_le_1_distinct)
  fix a assume "a \<in> set xs"
  with assms have "\<not> 1 < count_list xs a"
    by (auto simp: filter_empty_conv)
  then show "count_list xs a \<le> 1" by simp
qed

lemma length_filter_image:
  assumes "distinct (map f xs)" and "A \<subseteq> f ` set xs"
  shows "length (filter (\<lambda>x. f x \<in> A) xs) = card A"
proof -
  have d: "distinct (map f (filter (\<lambda>x. f x \<in> A) xs))"
    using assms(1) by (rule distinct_map_filter)
  have "length (filter (\<lambda>x. f x \<in> A) xs) = length (map f (filter (\<lambda>x. f x \<in> A) xs))"
    by simp
  also have "\<dots> = card (set (map f (filter (\<lambda>x. f x \<in> A) xs)))"
    using d by (simp only: distinct_card)
  also have "set (map f (filter (\<lambda>x. f x \<in> A) xs)) = A"
    using assms(2) by auto
  finally show ?thesis .
qed

lemma existing_products_dropped:
  assumes "distinct (map (csv_product_id \<circ> snd) df)"
    and "distinct (map product_id (visible c))"
  shows "length (filter (\<lambda>x. csv_product_id (snd x)
                  \<notin> PStr ` set (check_existing_products D c (map (csv_product_id \<circ> snd) df))) df)
         + length (check_existing_products D c (map (csv_product_id \<circ> snd) df)) = length df"
proof -
  let ?ids = "map (csv_product_id \<circ> snd) df"
  let ?E = "check_existing_products D c ?ids"
  let ?A = "PStr ` set ?E"
  have dE: "distinct ?E"
    using assms(2) by (auto simp: check_existing_products_def intro: distinct_map_filter)
  have sub: "?A \<subseteq> (csv_product_id \<circ> snd) ` set df"
    by (auto simp: check_existing_products_def split: if_splits)
  have "length (filter (\<lambda>x. (csv_product_id \<circ> snd) x \<in> ?A) df) = card ?A"
    using assms(1) sub by (rule length_filter_image)
  also have "card ?A = card (set ?E)"
    by (rule card_image) (simp add: inj_on_def)
  also have "\<dots> = length ?E" using dE by (rule distinct_card)
  finally have kept: "length (filter (\<lambda>x. csv_product_id (snd x) \<in> ?A) df) = length ?E" by simp
  have "length (filter (\<lambda>x. csv_product_id (snd x) \<in> ?A) df)
        + length (filter (\<lambda>x. csv_product_id (snd x) \<notin> ?A) df) = length df"
    using sum_length_filter_compl[of "\<lambda>x. csv_product_id (snd x) \<in> ?A" df] by (simp add: comp_def)
  with kept show ?thesis by simp
qed

text \<open>
  C1 (as amended). The claim is that for every input the counters add up: inserted rows,
  validation failures, duplicate failures and existing products make the total. A run
  that loads its file and connects, with a positive batch size, and that ends with an
  empty error list (no duplicated id, no failed batch insert, no critical error) against a
  catalogue that holds no product id twice, does satisfy the identity.
\<close>

theorem accounting_identity_of_clean_run:
  assumes run: "collate_and_migrate R D py (Some rows) (Some c) batch_size = (r, s, c')"
    and bs: "0 < batch_size"
    and clean: "errors r = []"
    and cat: "distinct (map product_id (visible c))"
  shows "successful_inserts r + validation_failures r + duplicate_failures r + existing_products r
           = total_rows r"
proof -
  define df0 where "df0 = zip [0..<length rows] rows"
  define dup where "dup = check_duplicate_products df0"
  define r0 where "r0 = new_results\<lparr>total_rows := length rows\<rparr>"
  define r1 where "r1 = (if dup \<noteq> []
      then r0\<lparr> duplicate_failures := length dup,
              errors := errors r0 @ [FoundDuplicateProductIDs (set dup)] \<rparr>
      else r0)"
  define df1 where "df1 = (if dup \<noteq> [] then drop_duplicates [] df0 else df0)"
  define E where "E = check_existing_products D c (map (csv_product_id \<circ> snd) df1)"
  define r2 where "r2 = (if E \<noteq> [] then r1\<lparr>existing_products := length E\<rparr> else r1)"
  define df2 where "df2 = (if E \<noteq> []
      then filter (\<lambda>x. csv_product_id (snd x) \<notin> PStr ` set E) df1 else df1)"
  define st0 where "st0 = \<lparr> conn = c, self = new_collator, res = r2, batch_count = 0 \<rparr>"
  define out where "out = process_chunks R D py (nat batch_size) df2 0 st0"
  have "collate_and_migrate R D py (Some rows) (Some c) batch_size = end_of_run out"
    using bs
    unfolding collate_and_migrate_def df0_def dup_def r0_def r1_def df1_def E_def r2_def df2_def
      st0_def out_def Let_def
    by simp
  with run have fin: "end_of_run out = (r, s, c')" by simp
  have none: "fst out = None"
  proof (cases "fst out")
    case None
    then show ?thesis .
  next
    case (Some msg)
    then have "end_of_run out
        = (res (snd out)\<lparr>errors := errors (res (snd out)) @ [CriticalError msg]\<rparr>, self (snd out),
           Some (disconnect_db (conn (snd out))))"
      by (cases out) (simp add: end_of_run_def)
    with fin clean show ?thesis by auto
  qed
  then have "end_of_run out = (res (snd out), self (snd out), Some (disconnect_db (conn (snd out))))"
    by (cases out) (simp add: end_of_run_def)
  with fin have r_eq: "r = res (snd out)" by simp
  from process_chunks_tally[of "nat batch_size" R D py df2 0 st0] bs
  obtain es where e: "errors r = errors r2 @ es"
    and t: "fst out = None \<and> es = [] \<longrightarrow> tally r = tally r2 + (length df2 - 0)"
    and h: "same_header r2 r"
    unfolding r_eq out_def st0_def by auto
  from e clean have es: "es = []" and e2: "errors r2 = []" by simp_all
  have "errors r1 = []" using e2 by (simp add: r2_def split: if_splits)
  then have nodup: "dup = []" by (simp add: r1_def split: if_splits)
  then have dist: "distinct (map (csv_product_id \<circ> snd) df0)"
    unfolding dup_def check_duplicate_products_def by (rule no_duplicates_distinct)
  have df1: "df1 = df0" and r1: "r1 = r0" using nodup by (simp_all add: df1_def r1_def)
  have df2': "df2 = filter (\<lambda>x. csv_product_id (snd x) \<notin> PStr ` set E) df0"
    by (simp add: df2_def df1)
  have r2': "existing_products r2 = length E" "total_rows r2 = length rows"
    "duplicate_failures r2 = 0" "tally r2 = 0"
    by (simp_all add: r2_def r1 r0_def new_results_def tally_def)
  from existing_products_dropped[OF dist cat, of D]
  have "length df2 + length E = length df0"
    by (simp add: df2' E_def df1)
  moreover have "length df0 = length rows" by (simp add: df0_def)
  moreover from t es none have "tally r = length df2" by (simp add: r2')
  ultimately show ?thesis
    using h r2' by (simp add: tally_def same_header_def)
qed

text \<open>
  A file of three rows in chunks of two: one row is written, one has no metadata, one is
  in the catalogue already.
\<close>

theorem accounting_identity_of_clean_run_witness:
  "(let r = fst (collate_and_migrate (sources_of [''P1'', ''P3''] [''X1'', ''X3'', ''X9''])
                  accepting_store cpython
                  (Some [csv_of (PStr ''P1'') (PStr ''X1''), csv_of (PStr ''P9'') (PStr ''X9''),
                         csv_of (PStr ''P3'') (PStr ''X3'')])
                  (Some (catalogue_of [''P3''])) 2)
    in (successful_inserts r + validation_failures r + duplicate_failures r + existing_products r
          = total_rows r,
        total_rows r, successful_inserts r, validation_failures r, duplicate_failures r,
        existing_products r))
   = (True, 3, 1, 1, 0, 1)"
proof -
  let ?run = "collate_and_migrate (sources_of [''P1'', ''P3''] [''X1'', ''X3'', ''X9''])
                  accepting_store cpython
                  (Some [csv_of (PStr ''P1'') (PStr ''X1''), csv_of (PStr ''P9'') (PStr ''X9''),
                         csv_of (PStr ''P3'') (PStr ''X3'')])
                  (Some (catalogue_of [''P3''])) 2"
  have h1: "?run = (fst ?run, fst (snd ?run), snd (snd ?run))" by simp
  have h2: "(0::int) < 2" by simp
  have h3: "errors (fst ?run) = []" by code_simp
  have h4: "distinct (map product_id (visible (catalogue_of [''P3''])))" by code_simp
  have vals: "(total_rows (fst ?run), successful_inserts (fst ?run), validation_failures (fst ?run),
               duplicate_failures (fst ?run), existing_products (fst ?run)) = (3, 1, 1, 0, 1)"
    by code_simp
  from accounting_identity_of_clean_run[OF h1 h2 h3 h4] vals
  show ?thesis by (simp add: Let_def)
qed

text \<open>
  C1 (as stated) fails: the one row of the file below is valid, the store refuses it, and
  the run records the failed batch in its error list only. No counter accounts for the
  row.
\<close>

theorem failed_batch_rows_are_not_counted:
  "(case collate_and_migrate (sources_of [''P1''] [''X1'']) (refusing_store ''P1'') cpython
          (Some [csv_of (PStr ''P1'') (PStr ''X1'')]) (Some empty_catalogue) 50 of
      (r, s, c) \<Rightarrow>
        (total_rows r,
         successful_inserts r + validation_failures r + duplicate_failures r + existing_products r,
         errors r))
   = (1, 0, [FailedToInsertBatch 1])"
  by code_simp

subsection \<open>A second run on the same file\<close>

text \<open>
  Where the rows of the catalogue come from. A row that validation accepts carries the
  trimmed product id of its input row, and validation leaves the list of validation
  errors to the loop. A successful insert adds exactly the batch to the table, and a
  failed one adds nothing. So whatever a run adds to the catalogue, and whatever it
  files as a validation error, comes from a row of the frame that reached the loop, and
  no row of that frame has an id that the existence query returned.
\<close>

lemma validate_and_collate_row_valid:
  "validate_and_collate_row py s row i md pd = (Valid d, s') \<Longrightarrow>
     product_id d = strip (py_str (csv_product_id row))"
  by (auto simp: validate_and_collate_row_def Let_def
           split: if_splits option.splits sum.splits prod.splits)

lemma validate_and_collate_row_errors:
  "validation_errors (snd (validate_and_collate_row py s row i md pd)) = validation_errors s"
  by (auto simp: validate_and_collate_row_def Let_def
           split: if_splits option.splits sum.splits prod.splits)

lemma validate_rows_origin:
  "validate_rows py md pd chunk (s, r, v) = (s', r', v') \<Longrightarrow>
     (\<exists>vn. v' = v @ vn
        \<and> (\<forall>d\<in>set vn. \<exists>x\<in>set chunk. product_id d = strip (py_str (csv_product_id (snd x)))))
     \<and> (\<exists>en. validation_errors s' = validation_errors s @ en
        \<and> (\<forall>e\<in>set en. \<exists>x\<in>set chunk. fst (snd e) = csv_product_id (snd x)))"
proof (induction chunk arbitrary: s r v)
  case Nil
  then show ?case by simp
next
  case (Cons x chunk)
  obtain index row where x: "x = (index, row)" by (cases x)
  obtain vd s1 where vr: "validate_and_collate_row py s row index md pd = (vd, s1)"
    by (cases "validate_and_collate_row py s row index md pd")
  have e1: "validation_errors s1 = validation_errors s"
    using validate_and_collate_row_errors[of py s row index md pd] vr by simp
  show ?case
  proof (cases vd)
    case (Valid d)
    with Cons.prems x vr
    have "validate_rows py md pd chunk (s1, r, v @ [d]) = (s', r', v')" by simp
    from Cons.IH[OF this] obtain vn en where
      vn: "v' = (v @ [d]) @ vn"
        "\<forall>d\<in>set vn. \<exists>x\<in>set chunk. product_id d = strip (py_str (csv_product_id (snd x)))"
      and en: "validation_errors s' = validation_errors s1 @ en"
        "\<forall>e\<in>set en. \<exists>x\<in>set chunk. fst (snd e) = csv_product_id (snd x)"
      by blast
    have d: "product_id d = strip (py_str (csv_product_id row))"
      using validate_and_collate_row_valid vr Valid by blast
    have "v' = v @ (d # vn)" using vn(1) by simp
    moreover have "\<forall>d'\<in>set (d # vn). \<exists>y\<in>set (x # chunk).
                      product_id d' = strip (py_str (csv_product_id (snd y)))"
      using vn(2) d x by auto
    moreover have "validation_errors s' = validation_errors s @ en" using en(1) e1 by simp
    moreover have "\<forall>e\<in>set en. \<exists>y\<in>set (x # chunk). fst (snd e) = csv_product_id (snd y)"
      using en(2) by auto
    ultimately show ?thesis by blast
  next
    case (Invalid errs d)
    with Cons.prems x vr
    have "validate_rows py md pd chunk
            (s1\<lparr>validation_errors := validation_errors s1 @ [(index, csv_product_id row, errs)]\<rparr>,
             r\<lparr>validation_failures := validation_failures r + 1\<rparr>, v) = (s', r', v')" by simp
    from Cons.IH[OF this] obtain vn en where
      vn: "v' = v @ vn"
        "\<forall>d\<in>set vn. \<exists>x\<in>set chunk. product_id d = strip (py_str (csv_product_id (snd x)))"
      and en: "validation_errors s'
                 = (validation_errors s1 @ [(index, csv_product_id row, errs)]) @ en"
        "\<forall>e\<in>set en. \<exists>x\<in>set chunk. fst (snd e) = csv_product_id (snd x)"
      by auto
    have "\<forall>d'\<in>set vn. \<exists>y\<in>set (x # chunk).
                      product_id d' = strip (py_str (csv_product_id (snd y)))"
      using vn(2) by auto
    moreover have "validation_errors s'
                     = validation_errors s @ ((index, csv_product_id row, errs) # en)"
      using en(1) e1 by simp
    moreover have "\<forall>e\<in>set ((index, csv_product_id row, errs) # en).
                      \<exists>y\<in>set (x # chunk). fst (snd e) = csv_product_id (snd y)"
      using en(2) x by auto
    ultimately show ?thesis using vn(1) by blast
  qed
qed

lemma executemany_pending:
  "executemany D c rows = (True, c') \<Longrightarrow> committed c' = committed c \<and> pending c' = pending c @ rows"
proof (induction rows arbitrary: c)
  case Nil
  then show ?case by simp
next
  case (Cons r rows)
  then have nf: "\<not> statement_fails D (visible c) r" by (auto split: if_splits)
  with Cons.prems have "executemany D (c\<lparr>pending := pending c @ [r]\<rparr>) rows = (True, c')" by simp
  from Cons.IH[OF this] show ?case by simp
qed

lemma insert_batch_effect:
  assumes "pending c = []" and "insert_batch D c v = (out, c')"
  shows "(out = Inr True \<longrightarrow> committed c' = committed c @ v \<and> pending c' = [])
       \<and> (out \<noteq> Inr True \<longrightarrow> committed c' = committed c)
       \<and> (out = Inr False \<longrightarrow> pending c' = [])"
proof -
  obtain ok c1 where ex: "executemany D c v = (ok, c1)" by (cases "executemany D c v")
  have com: "committed c1 = committed c" using executemany_committed[of D c v] ex by simp
  have pen: "ok \<Longrightarrow> pending c1 = v" using executemany_pending[of D c v c1] ex assms(1) by simp
  have fail: "insert_failed D c1 = (out, c') \<Longrightarrow>
                out \<noteq> Inr True \<and> committed c' = committed c \<and> (out = Inr False \<longrightarrow> pending c' = [])"
    using com by (auto simp: insert_failed_def rollback_def split: option.splits)
  have fail0: "insert_failed D c = (out, c') \<Longrightarrow>
                out \<noteq> Inr True \<and> committed c' = committed c \<and> (out = Inr False \<longrightarrow> pending c' = [])"
    by (auto simp: insert_failed_def rollback_def split: option.splits)
  show ?thesis
  proof (cases "v = []")
    case True
    with assms(2) have "insert_failed D c = (out, c')" by (simp add: insert_batch_def)
    from fail0[OF this] show ?thesis by simp
  next
    case False
    show ?thesis
    proof (cases "ok \<and> \<not> commit_fails D (visible c1)")
      case True
      with False ex assms(2) have "out = Inr True" "c' = commit c1"
        by (simp_all add: insert_batch_def)
      with True com pen show ?thesis by (simp add: commit_def)
    next
      case no: False
      with False ex assms(2) have "insert_failed D c1 = (out, c')"
        by (auto simp: insert_batch_def split: if_splits bool.splits)
      from fail[OF this] show ?thesis by simp
    qed
  qed
qed

lemma process_chunk_origin:
  assumes "pending (conn st) = []" and "process_chunk R D py chunk st = (out, st')"
  shows "\<exists>new en. committed (conn st') = committed (conn st) @ new
     \<and> (\<forall>d\<in>set new. \<exists>x\<in>set chunk. product_id d = strip (py_str (csv_product_id (snd x))))
     \<and> (out = None \<longrightarrow> pending (conn st') = [])
     \<and> validation_errors (self st') = validation_errors (self st) @ en
     \<and> (\<forall>e\<in>set en. \<exists>x\<in>set chunk. fst (snd e) = csv_product_id (snd x))
     \<and> successful_inserts (res st') = successful_inserts (res st) + length new"
proof -
  obtain s1 r1 v where cc: "collate_chunk R py chunk (self st, res st) = (s1, r1, v)"
    by (cases "collate_chunk R py chunk (self st, res st)") auto
  then have vrw: "validate_rows py
        (get_metadata_batch R (map (\<lambda>x. strip (py_str (csv_product_id (snd x)))) chunk))
        (get_price_details_batch R (filter (\<lambda>code. code \<noteq> [] \<and> code \<noteq> ''nan'')
              (map (\<lambda>x. strip (py_str (csv_item_code (snd x)))) chunk)))
        chunk (self st, res st, []) = (s1, r1, v)"
    by (simp add: collate_chunk_def Let_def)
  from validate_rows_counts[OF vrw]
  have si: "successful_inserts r1 = successful_inserts (res st)" by simp
  from validate_rows_origin[OF vrw] obtain en where
    vo: "\<forall>d\<in>set v. \<exists>x\<in>set chunk. product_id d = strip (py_str (csv_product_id (snd x)))"
    and en: "validation_errors s1 = validation_errors (self st) @ en"
      "\<forall>e\<in>set en. \<exists>x\<in>set chunk. fst (snd e) = csv_product_id (snd x)"
    by auto
  show ?thesis
  proof (cases "v = []")
    case True
    with cc assms(2) have "out = None" "st' = st\<lparr> self := s1, res := r1 \<rparr>"
      by (simp_all add: process_chunk_def)
    with assms(1) si en show ?thesis by (intro exI[of _ "[]"] exI[of _ en]) simp
  next
    case False
    obtain ob c' where ib: "insert_batch D (conn st) v = (ob, c')"
      by (cases "insert_batch D (conn st) v")
    note eff = insert_batch_effect[OF assms(1) ib]
    show ?thesis
    proof (cases ob)
      case (Inl msg)
      with False cc ib assms(2) have "out = Some msg" "st' = st\<lparr> conn := c', self := s1, res := r1 \<rparr>"
        by (simp_all add: process_chunk_def)
      with eff Inl si en show ?thesis by (intro exI[of _ "[]"] exI[of _ en]) simp
    next
      case (Inr ok)
      show ?thesis
      proof (cases ok)
        case True
        with Inr False cc ib assms(2) have "out = None"
          "st' = st\<lparr> conn := c', self := s1,
                      res := r1\<lparr>successful_inserts := successful_inserts r1 + length v\<rparr>,
                      batch_count := batch_count st + 1 \<rparr>"
          by (simp_all add: process_chunk_def)
        with eff Inr True si en vo show ?thesis by (intro exI[of _ v] exI[of _ en]) simp
      next
        case no: False
        with Inr False cc ib assms(2) have "out = None"
          "st' = st\<lparr> conn := c', self := s1,
                      res := r1\<lparr>errors := errors r1 @ [FailedToInsertBatch (batch_count st + 1)]\<rparr> \<rparr>"
          by (simp_all add: process_chunk_def)
        with eff Inr no si en show ?thesis by (intro exI[of _ "[]"] exI[of _ en]) simp
      qed
    qed
  qed
qed

lemma process_chunks_origin:
  "pending (conn st) = [] \<Longrightarrow> process_chunks R D py bs df start st = (out, st') \<Longrightarrow>
   \<exists>new en. committed (conn st') = committed (conn st) @ new
     \<and> (\<forall>d\<in>set new. \<exists>x\<in>set df. product_id d = strip (py_str (csv_product_id (snd x))))
     \<and> (out = None \<longrightarrow> pending (conn st') = [])
     \<and> validation_errors (self st') = validation_errors (self st) @ en
     \<and> (\<forall>e\<in>set en. \<exists>x\<in>set df. fst (snd e) = csv_product_id (snd x))
     \<and> successful_inserts (res st') = successful_inserts (res st) + length new"
proof (induction R D py bs df start st arbitrary: out st' rule: process_chunks.induct)
  case (1 R D py bs df start st)
  show ?case
  proof (cases "0 < bs \<and> start < length df")
    case False
    then have "process_chunks R D py bs df start st = (None, st)"
      by (subst process_chunks.simps) auto
    with "1.prems" have "out = None" "st' = st" by simp_all
    with "1.prems"(1) show ?thesis by (intro exI[of _ "[]"]) simp
  next
    case True
    let ?chunk = "take bs (drop start df)"
    have sub: "set ?chunk \<subseteq> set df"
      by (meson set_take_subset set_drop_subset subset_trans)
    obtain out1 st1 where pc: "process_chunk R D py ?chunk st = (out1, st1)"
      by (cases "process_chunk R D py ?chunk st")
    from process_chunk_origin[OF "1.prems"(1) pc] obtain new1 en1 where
      a1: "committed (conn st1) = committed (conn st) @ new1"
      and a2: "\<forall>d\<in>set new1. \<exists>x\<in>set ?chunk. product_id d = strip (py_str (csv_product_id (snd x)))"
      and a3: "out1 = None \<longrightarrow> pending (conn st1) = []"
      and a4: "validation_errors (self st1) = validation_errors (self st) @ en1"
      and a5: "\<forall>e\<in>set en1. \<exists>x\<in>set ?chunk. fst (snd e) = csv_product_id (snd x)"
      and a6: "successful_inserts (res st1) = successful_inserts (res st) + length new1"
      by blast
    from a2 sub have a2': "\<forall>d\<in>set new1. \<exists>x\<in>set df. product_id d = strip (py_str (csv_product_id (snd x)))"
      by blast
    from a5 sub have a5': "\<forall>e\<in>set en1. \<exists>x\<in>set df. fst (snd e) = csv_product_id (snd x)"
      by blast
    show ?thesis
    proof (cases out1)
      case (Some msg)
      have "process_chunks R D py bs df start st = (Some msg, st1)"
        using True pc Some by (subst process_chunks.simps) simp
      with "1.prems"(2) have "out = Some msg" "st' = st1" by simp_all
      with a1 a2' a4 a5' a6 show ?thesis by (intro exI[of _ new1] exI[of _ en1]) simp
    next
      case None
      have unfold: "process_chunks R D py bs df start st
                     = process_chunks R D py bs df (start + bs) st1"
        using True pc None by (subst process_chunks.simps) simp
      with "1.prems"(2) have rest: "process_chunks R D py bs df (start + bs) st1 = (out, st')"
        by simp
      from a3 None have p1: "pending (conn st1) = []" by simp
      have "\<exists>new en. committed (conn st') = committed (conn st1) @ new
         \<and> (\<forall>d\<in>set new. \<exists>x\<in>set df. product_id d = strip (py_str (csv_product_id (snd x))))
         \<and> (out = None \<longrightarrow> pending (conn st') = [])
         \<and> validation_errors (self st') = validation_errors (self st1) @ en
         \<and> (\<forall>e\<in>set en. \<exists>x\<in>set df. fst (snd e) = csv_product_id (snd x))
         \<and> successful_inserts (res st') = successful_inserts (res st1) + length new"
        using True pc None p1 rest by (intro "1.IH") auto
      then obtain new2 en2 where
        b1: "committed (conn st') = committed (conn st1) @ new2"
        and b2: "\<forall>d\<in>set new2. \<exists>x\<in>set df. product_id d = strip (py_str (csv_product_id (snd x)))"
        and b3: "out = None \<longrightarrow> pending (conn st') = []"
        and b4: "validation_errors (self st') = validation_errors (self st1) @ en2"
        and b5: "\<forall>e\<in>set en2. \<exists>x\<in>set df. fst (snd e) = csv_product_id (snd x)"
        and b6: "successful_inserts (res st') = successful_inserts (res st1) + length new2"
        by blast
      show ?thesis
      proof (intro exI[of _ "new1 @ new2"] exI[of _ "en1 @ en2"] conjI)
        show "committed (conn st') = committed (conn st) @ new1 @ new2" using a1 b1 by simp
        show "\<forall>d\<in>set (new1 @ new2). \<exists>x\<in>set df. product_id d = strip (py_str (csv_product_id (snd x)))"
          using a2' b2 by auto
        show "out = None \<longrightarrow> pending (conn st') = []" by (rule b3)
        show "validation_errors (self st') = validation_errors (self st) @ en1 @ en2"
          using a4 b4 by simp
        show "\<forall>e\<in>set (en1 @ en2). \<exists>x\<in>set df. fst (snd e) = csv_product_id (snd x)"
          using a5' b5 by auto
        show "successful_inserts (res st') = successful_inserts (res st) + length (new1 @ new2)"
          using a6 b6 by simp
      qed
    qed
  qed
qed

lemma drop_duplicates_subset: "set (drop_duplicates seen df) \<subseteq> set df"
  by (induction df arbitrary: seen) auto

lemma drop_duplicates_ids:
  "(csv_product_id \<circ> snd) ` set (drop_duplicates seen df) \<union> set seen
     = (csv_product_id \<circ> snd) ` set df \<union> set seen"
proof (induction df arbitrary: seen)
  case Nil
  then show ?case by simp
next
  case (Cons x df)
  show ?case
  proof (cases "csv_product_id (snd x) \<in> set seen")
    case True
    with Cons.IH[of seen] show ?thesis by auto
  next
    case False
    with Cons.IH[of "csv_product_id (snd x) # seen"] show ?thesis by auto
  qed
qed

lemma run_unfold:
  "\<exists>df2 r2 E.
     collate_and_migrate R D py (Some rows) (Some c) bs
       = end_of_run
           (if bs = 0
            then (Some ''range() arg 3 must not be zero'',
                  \<lparr> conn = c, self = new_collator, res = r2, batch_count = 0 \<rparr>)
            else if bs < 0
            then (None, \<lparr> conn = c, self = new_collator, res = r2, batch_count = 0 \<rparr>)
            else process_chunks R D py (nat bs) df2 0
                   \<lparr> conn = c, self = new_collator, res = r2, batch_count = 0 \<rparr>)
     \<and> successful_inserts r2 = 0 \<and> existing_products r2 = length E
     \<and> snd ` set df2 \<subseteq> set rows
     \<and> (\<forall>x\<in>set df2. csv_product_id (snd x) \<notin> PStr ` set E)
     \<and> ((\<forall>ids. \<not> existing_query_fails D ids) \<longrightarrow>
          E = map product_id
                (filter (\<lambda>d. PStr (product_id d) \<in> csv_product_id ` set rows) (visible c)))"
proof -
  define df0 where "df0 = zip [0..<length rows] rows"
  define dup where "dup = check_duplicate_products df0"
  define r0 where "r0 = new_results\<lparr>total_rows := length rows\<rparr>"
  define r1 where "r1 = (if dup \<noteq> []
      then r0\<lparr> duplicate_failures := length dup,
              errors := errors r0 @ [FoundDuplicateProductIDs (set dup)] \<rparr>
      else r0)"
  define df1 where "df1 = (if dup \<noteq> [] then drop_duplicates [] df0 else df0)"
  define E where "E = check_existing_products D c (map (csv_product_id \<circ> snd) df1)"
  define r2 where "r2 = (if E \<noteq> [] then r1\<lparr>existing_products := length E\<rparr> else r1)"
  define df2 where "df2 = (if E \<noteq> []
      then filter (\<lambda>x. csv_product_id (snd x) \<notin> PStr ` set E) df1 else df1)"
  have eq: "collate_and_migrate R D py (Some rows) (Some c) bs
       = end_of_run
           (if bs = 0
            then (Some ''range() arg 3 must not be zero'',
                  \<lparr> conn = c, self = new_collator, res = r2, batch_count = 0 \<rparr>)
            else if bs < 0
            then (None, \<lparr> conn = c, self = new_collator, res = r2, batch_count = 0 \<rparr>)
            else process_chunks R D py (nat bs) df2 0
                   \<lparr> conn = c, self = new_collator, res = r2, batch_count = 0 \<rparr>)"
    unfolding collate_and_migrate_def df0_def dup_def r0_def r1_def df1_def E_def r2_def df2_def
      Let_def
    by simp
  have s0: "successful_inserts r2 = 0"
    by (simp add: r2_def r1_def r0_def new_results_def)
  have e0: "existing_products r2 = length E"
    by (simp add: r2_def r1_def r0_def new_results_def)
  have set0: "snd ` set df0 = set rows"
    unfolding df0_def by (simp flip: set_map)
  have sub1: "set df1 \<subseteq> set df0"
    using drop_duplicates_subset[of "[]" df0] by (simp add: df1_def)
  have sub2: "set df2 \<subseteq> set df1" by (auto simp: df2_def)
  have rows2: "snd ` set df2 \<subseteq> set rows" using sub1 sub2 set0 by blast
  have notin: "\<forall>x\<in>set df2. csv_product_id (snd x) \<notin> PStr ` set E"
    by (cases "E = []") (simp_all add: df2_def)
  have ids1: "(csv_product_id \<circ> snd) ` set df1 = csv_product_id ` set rows"
  proof -
    have "(csv_product_id \<circ> snd) ` set df1 = (csv_product_id \<circ> snd) ` set df0"
      using drop_duplicates_ids[of "[]" df0] by (simp add: df1_def)
    also have "\<dots> = csv_product_id ` (snd ` set df0)" by (simp add: image_image)
    also have "\<dots> = csv_product_id ` set rows" by (simp only: set0)
    finally show ?thesis .
  qed
  have Eq: "E = map product_id
                (filter (\<lambda>d. PStr (product_id d) \<in> csv_product_id ` set rows) (visible c))"
    if q: "\<forall>ids. \<not> existing_query_fails D ids"
  proof (cases "map (csv_product_id \<circ> snd) df1 = []")
    case True
    then have "csv_product_id ` set rows = {}" using ids1 by simp
    with True show ?thesis by (simp add: E_def check_existing_products_def)
  next
    case False
    have "set (map (csv_product_id \<circ> snd) df1) = csv_product_id ` set rows" using ids1 by simp
    with False q show ?thesis by (simp add: E_def check_existing_products_def)
  qed
  from eq s0 e0 rows2 notin Eq show ?thesis by blast
qed

lemma end_of_run_fields:
  "end_of_run (out, st) = (r, s, copt) \<Longrightarrow>
     successful_inserts r = successful_inserts (res st) \<and> existing_products r = existing_products (res st)
     \<and> s = self st \<and> copt = Some (disconnect_db (conn st))"
  by (cases out) (auto simp: end_of_run_def)

lemma run_effect:
  assumes run: "collate_and_migrate R D py (Some rows) (Some c) bs = (r, s, copt)"
    and pc: "pending c = []"
  shows "\<exists>c' ins E. copt = Some c' \<and> pending c' = [] \<and> committed c' = committed c @ ins
      \<and> successful_inserts r = length ins \<and> existing_products r = length E
      \<and> (\<forall>d\<in>set ins. \<exists>row\<in>set rows. product_id d = strip (py_str (csv_product_id row))
                                          \<and> csv_product_id row \<notin> PStr ` set E)
      \<and> (\<forall>e\<in>set (validation_errors s). \<exists>row\<in>set rows. fst (snd e) = csv_product_id row
                                          \<and> csv_product_id row \<notin> PStr ` set E)
      \<and> ((\<forall>ids. \<not> existing_query_fails D ids) \<longrightarrow>
           E = map product_id
                 (filter (\<lambda>d. PStr (product_id d) \<in> csv_product_id ` set rows) (visible c)))"
proof -
  from run_unfold[of R D py rows c bs] obtain df2 r2 E where
    eq: "collate_and_migrate R D py (Some rows) (Some c) bs
       = end_of_run
           (if bs = 0
            then (Some ''range() arg 3 must not be zero'',
                  \<lparr> conn = c, self = new_collator, res = r2, batch_count = 0 \<rparr>)
            else if bs < 0
            then (None, \<lparr> conn = c, self = new_collator, res = r2, batch_count = 0 \<rparr>)
            else process_chunks R D py (nat bs) df2 0
                   \<lparr> conn = c, self = new_collator, res = r2, batch_count = 0 \<rparr>)"
    and s0: "successful_inserts r2 = 0" and e0: "existing_products r2 = length E"
    and rows2: "snd ` set df2 \<subseteq> set rows"
    and notin: "\<forall>x\<in>set df2. csv_product_id (snd x) \<notin> PStr ` set E"
    and Eq: "(\<forall>ids. \<not> existing_query_fails D ids) \<longrightarrow>
          E = map product_id
                (filter (\<lambda>d. PStr (product_id d) \<in> csv_product_id ` set rows) (visible c))"
    by blast
  let ?st0 = "\<lparr> conn = c, self = new_collator, res = r2, batch_count = 0 \<rparr>"
  show ?thesis
  proof (cases "0 < bs")
    case False
    then have "end_of_run (if bs = 0 then Some ''range() arg 3 must not be zero'' else None, ?st0)
                 = (r, s, copt)"
      using eq run by (auto split: if_splits)
    from end_of_run_fields[OF this] s0 e0 Eq pc show ?thesis
      by (intro exI[of _ "disconnect_db c"] exI[of _ "[]"] exI[of _ E])
         (simp add: disconnect_db_def new_collator_def)
  next
    case True
    obtain out st' where ps: "process_chunks R D py (nat bs) df2 0 ?st0 = (out, st')"
      by (cases "process_chunks R D py (nat bs) df2 0 ?st0")
    with True eq run have fin: "end_of_run (out, st') = (r, s, copt)" by simp
    have p0: "pending (conn ?st0) = []" using pc by simp
    from process_chunks_origin[OF p0 ps] obtain new en where
      b1: "committed (conn st') = committed c @ new"
      and b2: "\<forall>d\<in>set new. \<exists>x\<in>set df2. product_id d = strip (py_str (csv_product_id (snd x)))"
      and b4: "validation_errors (self st') = en"
      and b5: "\<forall>e\<in>set en. \<exists>x\<in>set df2. fst (snd e) = csv_product_id (snd x)"
      and b6: "successful_inserts (res st') = length new"
      by (auto simp: s0 new_collator_def)
    from process_chunks_tally[of "nat bs" R D py df2 0 ?st0] True ps
    have hd: "same_header r2 (res st')" by auto
    from end_of_run_fields[OF fin]
    have f: "successful_inserts r = successful_inserts (res st')"
      "existing_products r = existing_products (res st')" "s = self st'"
      "copt = Some (disconnect_db (conn st'))" by simp_all
    have c1: "\<forall>d\<in>set new. \<exists>row\<in>set rows. product_id d = strip (py_str (csv_product_id row))
                                          \<and> csv_product_id row \<notin> PStr ` set E"
    proof
      fix d assume "d \<in> set new"
      with b2 obtain x where x: "x \<in> set df2" "product_id d = strip (py_str (csv_product_id (snd x)))"
        by blast
      with rows2 notin have "snd x \<in> set rows" "csv_product_id (snd x) \<notin> PStr ` set E" by auto
      with x(2) show "\<exists>row\<in>set rows. product_id d = strip (py_str (csv_product_id row))
                                          \<and> csv_product_id row \<notin> PStr ` set E" by blast
    qed
    have c2: "\<forall>e\<in>set (validation_errors s). \<exists>row\<in>set rows. fst (snd e) = csv_product_id row
                                          \<and> csv_product_id row \<notin> PStr ` set E"
    proof
      fix e assume "e \<in> set (validation_errors s)"
      with b4 b5 f(3) obtain x where x: "x \<in> set df2" "fst (snd e) = csv_product_id (snd x)"
        by blast
      with rows2 notin have "snd x \<in> set rows" "csv_product_id (snd x) \<notin> PStr ` set E" by auto
      with x(2) show "\<exists>row\<in>set rows. fst (snd e) = csv_product_id row
                                          \<and> csv_product_id row \<notin> PStr ` set E" by blast
    qed
    show ?thesis
    proof (intro exI[of _ "disconnect_db (conn st')"] exI[of _ new] exI[of _ E] conjI)
      show "copt = Some (disconnect_db (conn st'))" by (rule f(4))
      show "pending (disconnect_db (conn st')) = []" by (simp add: disconnect_db_def)
      show "committed (disconnect_db (conn st')) = committed c @ new"
        using b1 by (simp add: disconnect_db_def)
      show "successful_inserts r = length new" using f(1) b6 by simp
      show "existing_products r = length E" using f(2) hd e0 by (simp add: same_header_def)
      show "\<forall>d\<in>set new. \<exists>row\<in>set rows. product_id d = strip (py_str (csv_product_id row))
                                          \<and> csv_product_id row \<notin> PStr ` set E" by (rule c1)
      show "\<forall>e\<in>set (validation_errors s). \<exists>row\<in>set rows. fst (snd e) = csv_product_id row
                                          \<and> csv_product_id row \<notin> PStr ` set E" by (rule c2)
      show "(\<forall>ids. \<not> existing_query_fails D ids) \<longrightarrow>
           E = map product_id
                 (filter (\<lambda>d. PStr (product_id d) \<in> csv_product_id ` set rows) (visible c))"
        by (rule Eq)
    qed
  qed
qed

text \<open>
  C4 (as amended). The claim is that a second run on the same file inserts nothing. Take
  a file whose product ids are texts with no blanks around them, and a store whose
  existence query succeeds. Then the second run inserts no row whose product id is in
  the catalogue that the first run left: every row the first run wrote is found by the
  existence query and counted under \<open>existing_products\<close>, which is the number of
  catalogue rows with an id of the file, and none of these ids appears among the
  validation errors of the second run. Rows that the first run did not write are
  processed again.
\<close>

theorem second_run_skips_what_is_in_the_catalogue:
  assumes run1: "collate_and_migrate R D py (Some rows) (Some c0) batch_size = (r1, s1, Some c1)"
    and run2: "collate_and_migrate R D py (Some rows) (Some c1) batch_size = (r2, s2, Some c2)"
    and fresh: "pending c0 = []"
    and ids: "\<forall>row\<in>set rows. \<exists>p. csv_product_id row = PStr p \<and> strip p = p"
    and query: "\<forall>ids. \<not> existing_query_fails D ids"
  shows "\<exists>ins1 ins2. committed c1 = committed c0 @ ins1 \<and> length ins1 = successful_inserts r1
     \<and> committed c2 = committed c1 @ ins2 \<and> length ins2 = successful_inserts r2
     \<and> (\<forall>d\<in>set ins2. product_id d \<notin> product_id ` set (committed c1))
     \<and> existing_products r2
          = length (filter (\<lambda>d. PStr (product_id d) \<in> csv_product_id ` set rows) (committed c1))
     \<and> successful_inserts r1 \<le> existing_products r2
     \<and> (\<forall>e\<in>set (validation_errors s2). fst (snd e) \<notin> PStr ` product_id ` set (committed c1))"
proof -
  let ?known = "\<lambda>d. PStr (product_id d) \<in> csv_product_id ` set rows"
  from run_effect[OF run1 fresh] obtain c' ins1 E1 where
    "Some c1 = Some c'" "pending c' = []" "committed c' = committed c0 @ ins1"
    "successful_inserts r1 = length ins1"
    "\<forall>d\<in>set ins1. \<exists>row\<in>set rows. product_id d = strip (py_str (csv_product_id row))
                                          \<and> csv_product_id row \<notin> PStr ` set E1"
    by blast
  then have p1: "pending c1 = []" and k1: "committed c1 = committed c0 @ ins1"
    and n1: "successful_inserts r1 = length ins1"
    and o1: "\<forall>d\<in>set ins1. \<exists>row\<in>set rows. product_id d = strip (py_str (csv_product_id row))"
    by auto
  from run_effect[OF run2 p1] obtain c'' ins2 E where
    "Some c2 = Some c''" "committed c'' = committed c1 @ ins2"
    "successful_inserts r2 = length ins2" "existing_products r2 = length E"
    "\<forall>d\<in>set ins2. \<exists>row\<in>set rows. product_id d = strip (py_str (csv_product_id row))
                                          \<and> csv_product_id row \<notin> PStr ` set E"
    "\<forall>e\<in>set (validation_errors s2). \<exists>row\<in>set rows. fst (snd e) = csv_product_id row
                                          \<and> csv_product_id row \<notin> PStr ` set E"
    "(\<forall>ids. \<not> existing_query_fails D ids) \<longrightarrow>
       E = map product_id (filter ?known (visible c1))"
    by blast
  with query have k2: "committed c2 = committed c1 @ ins2"
    and n2: "successful_inserts r2 = length ins2"
    and e2: "existing_products r2 = length E"
    and o2: "\<forall>d\<in>set ins2. \<exists>row\<in>set rows. product_id d = strip (py_str (csv_product_id row))
                                          \<and> csv_product_id row \<notin> PStr ` set E"
    and v2: "\<forall>e\<in>set (validation_errors s2). \<exists>row\<in>set rows. fst (snd e) = csv_product_id row
                                          \<and> csv_product_id row \<notin> PStr ` set E"
    and E: "E = map product_id (filter ?known (visible c1))"
    by auto
  have vis: "visible c1 = committed c1" using p1 by (simp add: visible_def)
  have written: "PStr (product_id d) = csv_product_id row"
    if "row \<in> set rows" "product_id d = strip (py_str (csv_product_id row))" for d row
  proof -
    from ids that(1) obtain p where "csv_product_id row = PStr p" "strip p = p" by blast
    with that(2) show ?thesis by simp
  qed
  have inE: "csv_product_id row \<in> PStr ` set E"
    if "row \<in> set rows" "d0 \<in> set (committed c1)" "csv_product_id row = PStr (product_id d0)"
    for row d0
  proof -
    from that have "?known d0" by (metis imageI)
    with that(2) have "product_id d0 \<in> set E" by (simp add: E vis)
    with that(3) show ?thesis by simp
  qed
  have new2: "\<forall>d\<in>set ins2. product_id d \<notin> product_id ` set (committed c1)"
  proof
    fix d assume "d \<in> set ins2"
    with o2 obtain row where row: "row \<in> set rows"
      "product_id d = strip (py_str (csv_product_id row))" "csv_product_id row \<notin> PStr ` set E"
      by blast
    show "product_id d \<notin> product_id ` set (committed c1)"
    proof
      assume "product_id d \<in> product_id ` set (committed c1)"
      then obtain d0 where d0: "d0 \<in> set (committed c1)" "product_id d = product_id d0" by auto
      from written[OF row(1,2)] d0(2) have "csv_product_id row = PStr (product_id d0)" by simp
      from inE[OF row(1) d0(1) this] row(3) show False by simp
    qed
  qed
  have val2: "\<forall>e\<in>set (validation_errors s2). fst (snd e) \<notin> PStr ` product_id ` set (committed c1)"
  proof
    fix e assume "e \<in> set (validation_errors s2)"
    with v2 obtain row where row: "row \<in> set rows" "fst (snd e) = csv_product_id row"
      "csv_product_id row \<notin> PStr ` set E" by blast
    show "fst (snd e) \<notin> PStr ` product_id ` set (committed c1)"
    proof
      assume "fst (snd e) \<in> PStr ` product_id ` set (committed c1)"
      then obtain d0 where d0: "d0 \<in> set (committed c1)" "fst (snd e) = PStr (product_id d0)"
        by auto
      with row(2) have "csv_product_id row = PStr (product_id d0)" by simp
      from inE[OF row(1) d0(1) this] row(3) show False by simp
    qed
  qed
  have ex2: "existing_products r2 = length (filter ?known (committed c1))"
    using e2 by (simp add: E vis)
  have all1: "filter ?known ins1 = ins1"
  proof (rule filter_True, rule ballI)
    fix d assume "d \<in> set ins1"
    with o1 obtain row where "row \<in> set rows" "product_id d = strip (py_str (csv_product_id row))"
      by blast
    from written[OF this] this(1) show "?known d" by (metis imageI)
  qed
  have "length ins1 \<le> length (filter ?known (committed c1))"
    by (simp add: k1 all1)
  with n1 ex2 have le: "successful_inserts r1 \<le> existing_products r2" by simp
  from k1 n1 k2 n2 new2 ex2 le val2 show ?thesis by (intro exI[of _ ins1] exI[of _ ins2]) simp
qed

text \<open>
  A file of four rows in chunks of two, against a store that refuses the product
  \<^verbatim>\<open>P2\<close>. The first run writes \<^verbatim>\<open>P1\<close>; the second finds it in the catalogue and counts
  it as existing.
\<close>

theorem second_run_skips_what_is_in_the_catalogue_witness:
  "(case collate_and_migrate (sources_of [''P1'', ''P2'', ''P3''] [''X1'', ''X2'', ''X3'', ''X9''])
          (refusing_store ''P2'') cpython (Some four_rows) (Some empty_catalogue) 2 of
      (r, s, c) \<Rightarrow> (successful_inserts r, validation_failures r, errors r, c))
     = (1, 1, [FailedToInsertBatch 2],
        Some \<lparr> committed = [written_row ''P1'' ''X1''], pending = [] \<rparr>)
   \<and> (case collate_and_migrate (sources_of [''P1'', ''P2'', ''P3''] [''X1'', ''X2'', ''X3'', ''X9''])
          (refusing_store ''P2'') cpython (Some four_rows)
          (Some \<lparr> committed = [written_row ''P1'' ''X1''], pending = [] \<rparr>) 2 of
      (r, s, c) \<Rightarrow> (existing_products r, map_option (map product_id \<circ> committed) c))
     = (1, Some [''P1'', ''P3''])
   \<and> successful_inserts (fst (collate_and_migrate
          (sources_of [''P1'', ''P2'', ''P3''] [''X1'', ''X2'', ''X3'', ''X9''])
          (refusing_store ''P2'') cpython (Some four_rows) (Some empty_catalogue) 2))
       \<le> existing_products (fst (collate_and_migrate
          (sources_of [''P1'', ''P2'', ''P3''] [''X1'', ''X2'', ''X3'', ''X9''])
          (refusing_store ''P2'') cpython (Some four_rows)
          (Some \<lparr> committed = [written_row ''P1'' ''X1''], pending = [] \<rparr>) 2))"
proof -
  let ?R = "sources_of [''P1'', ''P2'', ''P3''] [''X1'', ''X2'', ''X3'', ''X9'']"
  let ?D = "refusing_store ''P2''"
  let ?c1 = "\<lparr> committed = [written_row ''P1'' ''X1''], pending = [] \<rparr>"
  let ?c2 = "\<lparr> committed = [written_row ''P1'' ''X1'', written_row ''P3'' ''X3''], pending = [] \<rparr>"
  let ?run1 = "collate_and_migrate ?R ?D cpython (Some four_rows) (Some empty_catalogue) 2"
  let ?run2 = "collate_and_migrate ?R ?D cpython (Some four_rows) (Some ?c1) 2"
  have v1: "(case ?run1 of (r, s, c) \<Rightarrow> (successful_inserts r, validation_failures r, errors r, c))
              = (1, 1, [FailedToInsertBatch 2], Some ?c1)" by code_simp
  have v2: "(case ?run2 of (r, s, c) \<Rightarrow> (existing_products r, map_option (map product_id \<circ> committed) c))
              = (1, Some [''P1'', ''P3''])" by code_simp
  have s1: "snd (snd ?run1) = Some ?c1" by code_simp
  have s2: "snd (snd ?run2) = Some ?c2" by code_simp
  have h1: "?run1 = (fst ?run1, fst (snd ?run1), Some ?c1)"
    using s1 by (metis prod.collapse)
  have h2: "?run2 = (fst ?run2, fst (snd ?run2), Some ?c2)"
    using s2 by (metis prod.collapse)
  have h3: "pending empty_catalogue = []" by (simp add: empty_catalogue_def)
  have st: "strip ''P9'' = ''P9''" "strip ''P1'' = ''P1''" "strip ''P2'' = ''P2''"
    "strip ''P3'' = ''P3''" by code_simp+
  have h4: "\<forall>row\<in>set four_rows. \<exists>p. csv_product_id row = PStr p \<and> strip p = p"
    by (simp add: four_rows_def csv_of_def st)
  have h5: "\<forall>ids. \<not> existing_query_fails ?D ids" by (simp add: refusing_store_def)
  from second_run_skips_what_is_in_the_catalogue[OF h1 h2 h3 h4 h5]
  have le: "successful_inserts (fst ?run1) \<le> existing_products (fst ?run2)" by blast
  from v1 v2 le show ?thesis by blast
qed

text \<open>
  C4 (as stated) fails on the same file. In the first run \<^verbatim>\<open>P3\<close> shares its batch with
  \<^verbatim>\<open>P2\<close>, the insert fails and neither is written. In the second run \<^verbatim>\<open>P1\<close> is skipped,
  the chunks fall differently, \<^verbatim>\<open>P3\<close> is alone in its batch and is written: one new
  insert.
\<close>

theorem second_run_writes_rows_of_a_failed_batch:
  "(case collate_and_migrate (sources_of [''P1'', ''P2'', ''P3''] [''X1'', ''X2'', ''X3'', ''X9''])
          (refusing_store ''P2'') cpython (Some four_rows) (Some empty_catalogue) 2 of
      (r, s, c) \<Rightarrow> (successful_inserts r, map_option (map product_id \<circ> committed) c))
     = (1, Some [''P1''])
   \<and> (case collate_and_migrate (sources_of [''P1'', ''P2'', ''P3''] [''X1'', ''X2'', ''X3'', ''X9''])
          (refusing_store ''P2'') cpython (Some four_rows)
          (Some \<lparr> committed = [written_row ''P1'' ''X1''], pending = [] \<rparr>) 2 of
      (r, s, c) \<Rightarrow> (successful_inserts r, existing_products r,
                     map_option (map product_id \<circ> committed) c))
     = (1, 1, Some [''P1'', ''P3''])"
  by code_simp

end
